theory Spec2Isabelle
  imports Complex_Main
begin

section \<open>Values shared by all handlers\<close>

text \<open>
  The handlers answer with \<open>res.status(code).json(body)\<close>. A response is the HTTP status
  code and the JSON body; a body is a JSON value whose objects keep their keys in the
  order the handler wrote them. JavaScript numbers are modelled as exact rationals.
\<close>

datatype json =
    JNull
  | JBool bool
  | JNum rat
  | JStr string
  | JArr "json list"
  | JObj "(string \<times> json) list"

record response =
  res_code :: int
  res_body :: json

text \<open>\<open>res.json(body)\<close> without \<open>res.status\<close> answers 200.\<close>

definition json_reply :: "int \<Rightarrow> json \<Rightarrow> response" where
  "json_reply c b = \<lparr>res_code = c, res_body = b\<rparr>"

definition error_reply :: "int \<Rightarrow> string \<Rightarrow> response" where
  "error_reply c msg = json_reply c (JObj [(''status'', JStr ''error''), (''message'', JStr msg)])"

definition success_reply :: "json \<Rightarrow> response" where
  "success_reply d = json_reply 200 (JObj [(''status'', JStr ''success''), (''data'', d)])"

text \<open>Reading a member of a JSON object; \<open>None\<close> when the key is absent.\<close>

fun member :: "json \<Rightarrow> string \<Rightarrow> json option" where
  "member (JObj kvs) k = map_of kvs k"
| "member _ k = None"

text \<open>
  \<open>a || d\<close> on an optional number and on an optional string: \<open>undefined\<close>, \<open>0\<close> and
  the empty string are falsy.
\<close>

definition num_or :: "int option \<Rightarrow> int \<Rightarrow> int" where
  "num_or a d = (case a of None \<Rightarrow> d | Some n \<Rightarrow> if n = 0 then d else n)"

definition str_or :: "string option \<Rightarrow> string \<Rightarrow> string" where
  "str_or a d = (case a of None \<Rightarrow> d | Some s \<Rightarrow> if s = [] then d else s)"

text \<open>\<open>Math.round\<close>: the nearest integer, a half rounding towards plus infinity.\<close>

definition js_round :: "rat \<Rightarrow> int" where
  "js_round x = \<lfloor>x + 1 / 2\<rfloor>"

text \<open>\<open>Math.round(x * 10) / 10\<close>, the one-decimal rounding the handlers store.\<close>

definition round1 :: "rat \<Rightarrow> rat" where
  "round1 x = of_int (js_round (x * 10)) / 10"

section \<open>The centralized error handler (middleware/errorHandler.ts)\<close>





section \<open>Dates\<close>

text \<open>
  A \<open>Date\<close> is its time value, milliseconds since the epoch. The server's local time is
  taken to be a fixed-offset zone (UTC), so \<open>setHours(0, 0, 0, 0)\<close> goes back to the
  last multiple of a day and \<open>setDate(getDate() - 1)\<close> on a midnight goes back one day.
\<close>

type_synonym date = int

definition msPerDay :: int where
  "msPerDay = 86400000"

definition setHours0 :: "date \<Rightarrow> date" where
  "setHours0 t = t - t mod msPerDay"

definition getToday :: "date \<Rightarrow> date" where
  "getToday now = setHours0 now"

definition dayBefore :: "date \<Rightarrow> date" where
  "dayBefore t = t - msPerDay"

text \<open>\<open>getDay()\<close>: 0 is Sunday; the epoch was a Thursday.\<close>

definition getDay :: "date \<Rightarrow> int" where
  "getDay t = (4 + t div msPerDay) mod 7"

definition getWeekActivity :: "date \<Rightarrow> bool list" where
  "getWeekActivity today =
     (let dayOfWeek = getDay today;
          mondayIndex = (if dayOfWeek = 0 then 6 else dayOfWeek - 1)
      in (replicate 7 False)[nat mondayIndex := True])"

section \<open>Streaks\<close>

record UserStreak =
  us_userId :: nat
  us_currentStreak :: int
  us_longestStreak :: int
  us_lastActiveDate :: "date option"
  us_weekActivity :: "bool list"

record StudyStreak =
  ss_userId :: nat
  ss_currentStreak :: int
  ss_longestStreak :: int
  ss_totalStudyDays :: int
  ss_lastStudyDate :: "date option"

text \<open>
  Both streak tables have \<open>userId\<close> as their unique key and are read with
  \<open>findUnique({ where: { userId } })\<close>: they are maps from the user to the row.
\<close>

type_synonym userStreaks = "nat \<rightharpoonup> UserStreak"
type_synonym studyStreaks = "nat \<rightharpoonup> StudyStreak"

text \<open>\<open>updateStreak\<close> of the daily-MCQ controller; \<open>now\<close> is what \<open>new Date()\<close> reads.\<close>

definition updateStreak :: "date \<Rightarrow> nat \<Rightarrow> userStreaks \<Rightarrow> userStreaks" where
  "updateStreak now userId tbl =
     (let today = setHours0 now in
      case tbl userId of
        None \<Rightarrow>
          tbl(userId \<mapsto> \<lparr>us_userId = userId, us_currentStreak = 1, us_longestStreak = 1,
                           us_lastActiveDate = Some today, us_weekActivity = getWeekActivity today\<rparr>)
      | Some streak \<Rightarrow>
          (let lastActive = map_option setHours0 (us_lastActiveDate streak);
               isToday = (lastActive = Some today)
           in if isToday then tbl
              else
                (let yesterday = dayBefore today;
                     isConsecutive = (lastActive = Some yesterday);
                     newStreak = (if isConsecutive then us_currentStreak streak + 1 else 1);
                     newLongest = max newStreak (us_longestStreak streak)
                 in tbl(userId \<mapsto> streak\<lparr>us_currentStreak := newStreak,
                                              us_longestStreak := newLongest,
                                              us_lastActiveDate := Some today,
                                              us_weekActivity := getWeekActivity today\<rparr>))))"

text \<open>\<open>updateStudyStreak\<close> of the study-planner controller.\<close>

definition updateStudyStreak :: "date \<Rightarrow> nat \<Rightarrow> studyStreaks \<Rightarrow> studyStreaks" where
  "updateStudyStreak now userId tbl =
     (let today = getToday now in
      case tbl userId of
        None \<Rightarrow>
          tbl(userId \<mapsto> \<lparr>ss_userId = userId, ss_currentStreak = 1, ss_longestStreak = 1,
                           ss_totalStudyDays = 1, ss_lastStudyDate = Some today\<rparr>)
      | Some streak \<Rightarrow>
          (let lastDate = map_option setHours0 (ss_lastStudyDate streak)
           in if lastDate = Some today then tbl
              else
                (let yesterday = dayBefore today;
                     isConsecutive = (lastDate = Some yesterday);
                     newStreak = (if isConsecutive then ss_currentStreak streak + 1 else 1)
                 in tbl(userId \<mapsto> streak\<lparr>ss_currentStreak := newStreak,
                                              ss_longestStreak := max newStreak (ss_longestStreak streak),
                                              ss_totalStudyDays := ss_totalStudyDays streak + 1,
                                              ss_lastStudyDate := Some today\<rparr>))))"

text \<open>
  \<open>getStreak\<close> (dashboard controller) and \<open>getStudyStreak\<close> (study planner): the row is
  created with zeros when the user has none, and returned.
\<close>

definition getStreak :: "nat \<Rightarrow> userStreaks \<Rightarrow> UserStreak \<times> userStreaks" where
  "getStreak userId tbl =
     (case tbl userId of
        Some streak \<Rightarrow> (streak, tbl)
      | None \<Rightarrow>
          (let streak = \<lparr>us_userId = userId, us_currentStreak = 0, us_longestStreak = 0,
                          us_lastActiveDate = None, us_weekActivity = replicate 7 False\<rparr>
           in (streak, tbl(userId \<mapsto> streak))))"

definition getStudyStreak :: "nat \<Rightarrow> studyStreaks \<Rightarrow> StudyStreak \<times> studyStreaks" where
  "getStudyStreak userId tbl =
     (case tbl userId of
        Some streak \<Rightarrow> (streak, tbl)
      | None \<Rightarrow>
          (let streak = \<lparr>ss_userId = userId, ss_currentStreak = 0, ss_longestStreak = 0,
                          ss_totalStudyDays = 0, ss_lastStudyDate = None\<rparr>
           in (streak, tbl(userId \<mapsto> streak))))"

section \<open>The database\<close>

text \<open>
  Rows are records, tables are lists of rows in insertion order, so that a table can hold
  two rows with the same key unless the handlers prevent it. Primary keys (strings in the
  source) are naturals drawn from a counter. Request bodies have the types the handlers
  expect of them; a member that may be missing is an option. Columns and response members
  that none of the properties below depends on (question texts of mock tests, subject-wise
  and topic tallies, analysis and feedback texts, activity descriptions) are left out.
\<close>

record UserActivity =
  ua_userId :: nat
  ua_type :: string
  ua_title :: string

record MockTest =
  mt_id :: nat
  mt_title :: string
  mt_questionCount :: int
  mt_duration :: int
  mt_totalMarks :: int

record MockTestQuestion =
  mq_id :: nat
  mq_mockTestId :: nat
  mq_questionNum :: int
  mq_subject :: string
  mq_difficulty :: string
  mq_correctOption :: string

record MockTestAttempt =
  ma_id :: nat
  ma_userId :: nat
  ma_mockTestId :: nat
  ma_answers :: "(nat \<times> string) list"
  ma_score :: rat
  ma_totalMarks :: int
  ma_correctCount :: nat
  ma_wrongCount :: nat
  ma_skippedCount :: nat
  ma_accuracy :: rat
  ma_timeTaken :: int
  ma_completedAt :: "date option"

record DailyMCQ =
  dm_id :: nat
  dm_date :: date
  dm_questionCount :: int
  dm_timeLimit :: int
  dm_totalMarks :: int

record MCQQuestion =
  qn_id :: nat
  qn_dailyMcqId :: nat
  qn_questionNum :: int
  qn_questionText :: string
  qn_category :: string
  qn_difficulty :: string
  qn_options :: json
  qn_correctOption :: string
  qn_explanation :: string

text \<open>A score is \<open>None\<close> when the JavaScript number is not finite (a division by zero).\<close>

record MCQAttempt =
  at_id :: nat
  at_userId :: nat
  at_dailyMcqId :: nat
  at_score :: "rat option"
  at_totalMarks :: int
  at_correctCount :: nat
  at_wrongCount :: nat
  at_skippedCount :: nat
  at_accuracy :: rat
  at_timeTaken :: int
  at_completedAt :: "date option"

record MCQResponse =
  rs_id :: nat
  rs_attemptId :: nat
  rs_questionId :: nat
  rs_selectedOption :: "string option"
  rs_isCorrect :: "bool option"
  rs_timeTaken :: int

text \<open>
  The text of an answer is a JavaScript string: a list of UTF-16 code units, so that
  \<open>trim\<close> and \<open>\s\<close> see every white-space character of the language.
\<close>

type_synonym utf16 = "nat list"

record DailyMainsQuestion =
  mn_id :: nat
  mn_date :: date
  mn_subject :: string
  mn_marks :: int

record MainsAttempt =
  mx_id :: nat
  mx_userId :: nat
  mx_questionId :: nat
  mx_answerText :: "utf16 option"
  mx_fileUrl :: "string option"
  mx_wordCount :: "int option"
  mx_submittedAt :: "date option"

record MainsEvaluation =
  ev_id :: nat
  ev_attemptId :: nat
  ev_score :: rat
  ev_maxScore :: int
  ev_status :: string
  ev_evaluatedAt :: "date option"

text \<open>
  A callback handed to \<open>setTimeout\<close> by \<open>startEvaluation\<close>, with what its closure
  captured: the evaluation's id, whether \<open>answerText\<close> is truthy, and the question's marks.
\<close>

record timer =
  tm_evaluationId :: nat
  tm_hasText :: bool
  tm_marks :: int

record db =
  nextId :: nat
  mockTests :: "MockTest list"
  mockTestQuestions :: "MockTestQuestion list"
  mockTestAttempts :: "MockTestAttempt list"
  dailyMCQs :: "DailyMCQ list"
  mcqQuestions :: "MCQQuestion list"
  mcqAttempts :: "MCQAttempt list"
  mcqResponses :: "MCQResponse list"
  dailyMainsQuestions :: "DailyMainsQuestion list"
  mainsAttempts :: "MainsAttempt list"
  mainsEvaluations :: "MainsEvaluation list"
  userStreakTbl :: userStreaks
  userActivities :: "UserActivity list"
  timers :: "timer list"

text \<open>A fresh primary key.\<close>

definition fresh :: "db \<Rightarrow> nat \<times> db" where
  "fresh d = (nextId d, d\<lparr>nextId := Suc (nextId d)\<rparr>)"

definition logActivity :: "nat \<Rightarrow> string \<Rightarrow> string \<Rightarrow> db \<Rightarrow> db" where
  "logActivity userId ty title d =
     d\<lparr>userActivities := userActivities d @ [\<lparr>ua_userId = userId, ua_type = ty, ua_title = title\<rparr>]\<rparr>"

text \<open>\<open>update\<close> of the row a unique key selects: the first row that matches.\<close>

fun update_first :: "('a \<Rightarrow> bool) \<Rightarrow> ('a \<Rightarrow> 'a) \<Rightarrow> 'a list \<Rightarrow> 'a list" where
  "update_first p f [] = []"
| "update_first p f (x # xs) = (if p x then f x # xs else x # update_first p f xs)"

text \<open>
  \<open>upsert({ where, create, update })\<close>: the row the unique key selects is updated in
  place; when there is none, a row is created under a fresh primary key. The result is the
  row written, the table and the key counter.
\<close>

definition upsert :: "('a \<Rightarrow> bool) \<Rightarrow> (nat \<Rightarrow> 'a) \<Rightarrow> ('a \<Rightarrow> 'a) \<Rightarrow> 'a list \<Rightarrow> nat \<Rightarrow> 'a \<times> 'a list \<times> nat" where
  "upsert wh create update rows next =
     (case find wh rows of
        None \<Rightarrow> (create next, rows @ [create next], Suc next)
      | Some old \<Rightarrow> (update old, update_first wh update rows, next))"

section \<open>Mock tests\<close>

record generate_body =
  gb_subject :: "string option"
  gb_examMode :: "string option"
  gb_difficulty :: "string option"
  gb_questionCount :: "int option"

text \<open>
  \<open>Math.floor(Math.random() * n)\<close>: the handler's random draws are a stream of naturals,
  the \<open>k\<close>-th draw read modulo \<open>n\<close>. Question \<open>i\<close> makes three draws.
\<close>

definition pick :: "(nat \<Rightarrow> nat) \<Rightarrow> nat \<Rightarrow> 'a list \<Rightarrow> 'a" where
  "pick rnd k xs = xs ! (rnd k mod length xs)"

definition generated_question :: "(nat \<Rightarrow> nat) \<Rightarrow> string list \<Rightarrow> string list \<Rightarrow> nat \<Rightarrow> nat \<Rightarrow> int \<Rightarrow> MockTestQuestion" where
  "generated_question rnd subjectList difficultyList testId qid i =
     (let k = 3 * nat (i - 1);
          qSubject = pick rnd k subjectList;
          qDifficulty = pick rnd (k + 1) difficultyList
      in \<lparr>mq_id = qid, mq_mockTestId = testId, mq_questionNum = i, mq_subject = qSubject,
          mq_difficulty = qDifficulty,
          mq_correctOption = pick rnd (k + 2) [''A'', ''B'', ''C'', ''D'']\<rparr>)"

text \<open>The loop \<open>for (let i = 1; i <= count; i++)\<close>, one created row per turn.\<close>

fun create_questions :: "(nat \<Rightarrow> nat) \<Rightarrow> string list \<Rightarrow> string list \<Rightarrow> nat \<Rightarrow> int list \<Rightarrow> db \<Rightarrow> db" where
  "create_questions rnd sl dl testId [] d = d"
| "create_questions rnd sl dl testId (i # is) d =
     (let (qid, d1) = fresh d
      in create_questions rnd sl dl testId is
           (d1\<lparr>mockTestQuestions := mockTestQuestions d1 @ [generated_question rnd sl dl testId qid i]\<rparr>))"

definition generateTest :: "(nat \<Rightarrow> nat) \<Rightarrow> nat \<Rightarrow> generate_body \<Rightarrow> db \<Rightarrow> response \<times> db" where
  "generateTest rnd userId body d =
     (let subject = gb_subject body;
          count = min (num_or (gb_questionCount body) 10) 100;
          duration = js_round (of_int count * (16 / 10));
          totalMarks = count * 2;
          (tid, d1) = fresh d;
          mockTest = \<lparr>mt_id = tid,
                      mt_title = str_or subject ''Mixed'' @ '' - '' @ str_or (gb_examMode body) ''Prelims'' @ '' Practice'',
                      mt_questionCount = count, mt_duration = duration, mt_totalMarks = totalMarks\<rparr>;
          d2 = d1\<lparr>mockTests := mockTests d1 @ [mockTest]\<rparr>;
          subjectList = (case subject of
                           None \<Rightarrow> [''History'', ''Geography'', ''Indian Polity'', ''Economy'']
                         | Some s \<Rightarrow> if s \<noteq> [] \<and> s \<noteq> ''All Subjects'' then [s]
                                     else [''History'', ''Geography'', ''Indian Polity'', ''Economy'']);
          difficultyList = (if gb_difficulty body = Some ''mixed'' then [''Easy'', ''Moderate'', ''Hard'']
                            else [str_or (gb_difficulty body) ''Moderate'']);
          d3 = create_questions rnd subjectList difficultyList tid [1..count] d2;
          d4 = logActivity userId ''mock_test'' ''Generated Mock Test'' d3
      in (success_reply (JObj [(''testId'', JNum (of_nat tid)),
                               (''title'', JStr (mt_title mockTest)),
                               (''questionCount'', JNum (of_int count)),
                               (''duration'', JNum (of_int duration)),
                               (''totalMarks'', JNum (of_int totalMarks))]),
          d4))"

record submit_body =
  sb_answers :: "(nat \<times> string) list option"
  sb_timeTaken :: "int option"

text \<open>\<open>answers?.[q.id] || null\<close>: a missing object, a missing key and \<open>""\<close> all give null.\<close>

definition selected_of :: "(nat \<times> string) list option \<Rightarrow> nat \<Rightarrow> string option" where
  "selected_of answers qid =
     (case answers of
        None \<Rightarrow> None
      | Some kvs \<Rightarrow> (case map_of kvs qid of
                      None \<Rightarrow> None
                    | Some s \<Rightarrow> if s = [] then None else Some s))"

text \<open>The questions loaded with a test (\<open>include: { questions: true }\<close>).\<close>

definition test_questions :: "nat \<Rightarrow> db \<Rightarrow> MockTestQuestion list" where
  "test_questions testId d = filter (\<lambda>q. mq_mockTestId q = testId) (mockTestQuestions d)"

text \<open>The counting loop of \<open>submitTest\<close>: (correctCount, wrongCount, skippedCount).\<close>

fun tally :: "(nat \<times> string) list option \<Rightarrow> MockTestQuestion list \<Rightarrow> nat \<times> nat \<times> nat \<Rightarrow> nat \<times> nat \<times> nat" where
  "tally answers [] acc = acc"
| "tally answers (q # qs) (correctCount, wrongCount, skippedCount) =
     (case selected_of answers (mq_id q) of
        None \<Rightarrow> tally answers qs (correctCount, wrongCount, Suc skippedCount)
      | Some selected \<Rightarrow>
          if selected = mq_correctOption q
          then tally answers qs (Suc correctCount, wrongCount, skippedCount)
          else tally answers qs (correctCount, Suc wrongCount, skippedCount))"

text \<open>
  \<open>totalAnswered > 0 ? (correctCount / totalAnswered) * 100 : 0\<close>, as the exact quotient.
  The code's double can fall just below a half that the exact value reaches, so the
  one-decimal rounding stored from it can be one unit lower than the one stored here
  (41 of 80 answered: 51.2 in the code, 51.3 here). No property below speaks of the stored
  accuracy.
\<close>

definition accuracy_of :: "nat \<Rightarrow> nat \<Rightarrow> rat" where
  "accuracy_of correctCount wrongCount =
     (let totalAnswered = correctCount + wrongCount
      in if totalAnswered > 0 then (of_nat correctCount / of_nat totalAnswered) * 100 else 0)"

text \<open>\<open>correctCount * 2 - wrongCount * 0.66\<close>\<close>

definition raw_score :: "nat \<Rightarrow> nat \<Rightarrow> rat" where
  "raw_score correctCount wrongCount = of_nat correctCount * 2 - of_nat wrongCount * (66 / 100)"

definition submitTest :: "date \<Rightarrow> nat \<Rightarrow> nat \<Rightarrow> submit_body \<Rightarrow> db \<Rightarrow> response \<times> db" where
  "submitTest now userId testId body d =
     (case find (\<lambda>t. mt_id t = testId) (mockTests d) of
        None \<Rightarrow> (error_reply 404 ''Test not found'', d)
      | Some test \<Rightarrow>
          (let answers = sb_answers body;
               questions = test_questions testId d;
               (correctCount, wrongCount, skippedCount) = tally answers questions (0, 0, 0);
               accuracy = accuracy_of correctCount wrongCount;
               score = raw_score correctCount wrongCount;
               (aid, d1) = fresh d;
               attempt = \<lparr>ma_id = aid, ma_userId = userId, ma_mockTestId = testId,
                          ma_answers = (case answers of None \<Rightarrow> [] | Some kvs \<Rightarrow> kvs),
                          ma_score = max 0 (round1 score),
                          ma_totalMarks = mt_totalMarks test,
                          ma_correctCount = correctCount, ma_wrongCount = wrongCount,
                          ma_skippedCount = skippedCount,
                          ma_accuracy = round1 accuracy,
                          ma_timeTaken = num_or (sb_timeTaken body) 0,
                          ma_completedAt = Some now\<rparr>;
               d2 = d1\<lparr>mockTestAttempts := mockTestAttempts d1 @ [attempt]\<rparr>;
               d3 = logActivity userId ''mock_test'' ''Completed Mock Test'' d2
           in (success_reply (JObj [(''attemptId'', JNum (of_nat aid)), (''testId'', JNum (of_nat testId))]),
               d3)))"

section \<open>Daily MCQ\<close>

text \<open>
  What a query returns for a question row: an object with one member per column.
  \<open>select\<close> keeps the members whose column is selected, in the row's order.
\<close>

definition question_row :: "MCQQuestion \<Rightarrow> (string \<times> json) list" where
  "question_row q =
     [(''id'', JNum (of_nat (qn_id q))),
      (''dailyMcqId'', JNum (of_nat (qn_dailyMcqId q))),
      (''questionNum'', JNum (of_int (qn_questionNum q))),
      (''questionText'', JStr (qn_questionText q)),
      (''category'', JStr (qn_category q)),
      (''difficulty'', JStr (qn_difficulty q)),
      (''options'', qn_options q),
      (''correctOption'', JStr (qn_correctOption q)),
      (''explanation'', JStr (qn_explanation q))]"

definition prisma_select :: "string list \<Rightarrow> (string \<times> json) list \<Rightarrow> json" where
  "prisma_select cols row = JObj (filter (\<lambda>kv. fst kv \<in> set cols) row)"

text \<open>\<open>dailyMCQ.findUnique({ where: { date: today } })\<close>\<close>

definition todays_mcq :: "date \<Rightarrow> db \<Rightarrow> DailyMCQ option" where
  "todays_mcq now d = find (\<lambda>m. dm_date m = getToday now) (dailyMCQs d)"

definition questions_of :: "nat \<Rightarrow> db \<Rightarrow> MCQQuestion list" where
  "questions_of mcqId d = filter (\<lambda>q. qn_dailyMcqId q = mcqId) (mcqQuestions d)"

definition getTodayQuestions :: "date \<Rightarrow> db \<Rightarrow> response" where
  "getTodayQuestions now d =
     (case todays_mcq now d of
        None \<Rightarrow> error_reply 404 ''No MCQ challenge available for today''
      | Some mcq \<Rightarrow>
          (let questions =
                 map (\<lambda>q. prisma_select [''id'', ''questionNum'', ''questionText'', ''category'',
                                          ''difficulty'', ''options''] (question_row q))
                     (sort_key qn_questionNum (questions_of (dm_id mcq) d))
           in success_reply (JObj [(''mcqId'', JNum (of_nat (dm_id mcq))),
                                   (''timeLimit'', JNum (of_int (dm_timeLimit mcq))),
                                   (''totalMarks'', JNum (of_int (dm_totalMarks mcq))),
                                   (''questions'', JArr questions)])))"

record mcq_answer =
  an_questionId :: nat
  an_selectedOption :: "string option"
  an_timeTaken :: "int option"

record mcq_body =
  mb_answers :: "mcq_answer list option"
  mb_timeTaken :: "int option"

text \<open>\<open>answers?.find((a) => a.questionId === q.id)\<close>\<close>

definition answer_for :: "mcq_answer list option \<Rightarrow> nat \<Rightarrow> mcq_answer option" where
  "answer_for answers qid =
     (case answers of None \<Rightarrow> None | Some as \<Rightarrow> find (\<lambda>a. an_questionId a = qid) as)"

text \<open>\<open>answer?.selectedOption || null\<close>\<close>

definition selected_option :: "mcq_answer option \<Rightarrow> string option" where
  "selected_option answer =
     (case answer of
        None \<Rightarrow> None
      | Some a \<Rightarrow> (case an_selectedOption a of
                    None \<Rightarrow> None
                  | Some s \<Rightarrow> if s = [] then None else Some s))"

record response_data =
  rd_questionId :: nat
  rd_selectedOption :: "string option"
  rd_isCorrect :: "bool option"
  rd_timeTaken :: int

text \<open>
  The loop of \<open>submitMCQ\<close> over the questions: the three counters and the pushed
  \<open>responseData\<close>.
\<close>

fun mark :: "mcq_answer list option \<Rightarrow> MCQQuestion list \<Rightarrow> nat \<times> nat \<times> nat \<times> response_data list
             \<Rightarrow> nat \<times> nat \<times> nat \<times> response_data list" where
  "mark answers [] acc = acc"
| "mark answers (q # qs) (correctCount, wrongCount, skippedCount, responseData) =
     (let answer = answer_for answers (qn_id q);
          selected = selected_option answer;
          isCorrect = map_option (\<lambda>s. s = qn_correctOption q) selected;
          r = \<lparr>rd_questionId = qn_id q, rd_selectedOption = selected, rd_isCorrect = isCorrect,
               rd_timeTaken = num_or (case answer of None \<Rightarrow> None | Some a \<Rightarrow> an_timeTaken a) 0\<rparr>
      in case isCorrect of
           None \<Rightarrow> mark answers qs (correctCount, wrongCount, Suc skippedCount, responseData @ [r])
         | Some True \<Rightarrow> mark answers qs (Suc correctCount, wrongCount, skippedCount, responseData @ [r])
         | Some False \<Rightarrow> mark answers qs (correctCount, Suc wrongCount, skippedCount, responseData @ [r]))"

text \<open>\<open>mCQResponse.upsert\<close> on the key (attemptId, questionId), once per response.\<close>

fun save_responses :: "nat \<Rightarrow> response_data list \<Rightarrow> db \<Rightarrow> db" where
  "save_responses attemptId [] d = d"
| "save_responses attemptId (r # rs) d =
     (let (saved, rows, next) =
            upsert (\<lambda>x. rs_attemptId x = attemptId \<and> rs_questionId x = rd_questionId r)
              (\<lambda>rid. \<lparr>rs_id = rid, rs_attemptId = attemptId, rs_questionId = rd_questionId r,
                       rs_selectedOption = rd_selectedOption r, rs_isCorrect = rd_isCorrect r,
                       rs_timeTaken = rd_timeTaken r\<rparr>)
              (\<lambda>x. x\<lparr>rs_selectedOption := rd_selectedOption r, rs_isCorrect := rd_isCorrect r,
                      rs_timeTaken := rd_timeTaken r\<rparr>)
              (mcqResponses d) (nextId d)
      in save_responses attemptId rs (d\<lparr>mcqResponses := rows, nextId := next\<rparr>))"

text \<open>
  \<open>correctCount * (mcq.totalMarks / mcq.questionCount)\<close>, rounded to one decimal; not
  finite when the question count is zero. The product is the exact one; the code's double
  can round the other way at a half (3 correct at 7 marks for 20 questions: 1.0 in the
  code, 1.1 here). No property below speaks of the stored daily-MCQ score.
\<close>

definition mcq_score :: "nat \<Rightarrow> DailyMCQ \<Rightarrow> rat option" where
  "mcq_score correctCount mcq =
     (if dm_questionCount mcq = 0 then None
      else Some (round1 (of_nat correctCount * (of_int (dm_totalMarks mcq) / of_int (dm_questionCount mcq)))))"

definition json_score :: "rat option \<Rightarrow> json" where
  "json_score s = (case s of None \<Rightarrow> JNull | Some x \<Rightarrow> JNum x)"

definition submitMCQ :: "date \<Rightarrow> nat \<Rightarrow> mcq_body \<Rightarrow> db \<Rightarrow> response \<times> db" where
  "submitMCQ now userId body d =
     (case todays_mcq now d of
        None \<Rightarrow> (error_reply 404 ''No MCQ challenge available for today'', d)
      | Some mcq \<Rightarrow>
          (let mine = (\<lambda>a. at_userId a = userId \<and> at_dailyMcqId a = dm_id mcq);
               existing = find mine (mcqAttempts d)
           in if (case existing of None \<Rightarrow> False | Some a \<Rightarrow> at_completedAt a \<noteq> None)
              then (error_reply 400 ''You have already submitted today's MCQ'', d)
              else
                (let (correctCount, wrongCount, skippedCount, responseData) =
                       mark (mb_answers body) (questions_of (dm_id mcq) d) (0, 0, 0, []);
                     accuracy = accuracy_of correctCount wrongCount;
                     score = mcq_score correctCount mcq;
                     timeTaken = num_or (mb_timeTaken body) 0;
                     (attempt, rows, next) =
                       upsert mine
                         (\<lambda>aid. \<lparr>at_id = aid, at_userId = userId, at_dailyMcqId = dm_id mcq,
                                  at_score = score, at_totalMarks = dm_totalMarks mcq,
                                  at_correctCount = correctCount, at_wrongCount = wrongCount,
                                  at_skippedCount = skippedCount, at_accuracy = round1 accuracy,
                                  at_timeTaken = timeTaken, at_completedAt = Some now\<rparr>)
                         (\<lambda>old. old\<lparr>at_score := score, at_correctCount := correctCount,
                                     at_wrongCount := wrongCount, at_skippedCount := skippedCount,
                                     at_accuracy := round1 accuracy, at_timeTaken := timeTaken,
                                     at_completedAt := Some now\<rparr>)
                         (mcqAttempts d) (nextId d);
                     d2 = d\<lparr>mcqAttempts := rows, nextId := next\<rparr>;
                     d3 = save_responses (at_id attempt) responseData d2;
                     d4 = logActivity userId ''mcq'' ''Completed Daily MCQ'' d3;
                     d5 = d4\<lparr>userStreakTbl := updateStreak now userId (userStreakTbl d4)\<rparr>
                 in (success_reply
                       (JObj [(''attemptId'', JNum (of_nat (at_id attempt))),
                              (''score'', json_score (at_score attempt)),
                              (''totalMarks'', JNum (of_int (at_totalMarks attempt))),
                              (''correctCount'', JNum (of_nat correctCount)),
                              (''wrongCount'', JNum (of_nat wrongCount)),
                              (''skippedCount'', JNum (of_nat skippedCount)),
                              (''accuracy'', JNum (at_accuracy attempt)),
                              (''timeTaken'', JNum (of_int (at_timeTaken attempt)))]),
                     d5))))"

section \<open>Daily mains answer\<close>

text \<open>
  The white space of \<open>String.prototype.trim\<close> and of \<open>\s\<close>: the WhiteSpace and
  LineTerminator code points of the language.
\<close>

definition is_ws :: "nat \<Rightarrow> bool" where
  "is_ws c = (c \<in> {9, 10, 11, 12, 13, 32, 160, 5760, 8232, 8233, 8239, 8287, 12288, 65279}
              \<or> (8192 \<le> c \<and> c \<le> 8202))"

definition trim :: "utf16 \<Rightarrow> utf16" where
  "trim s = rev (dropWhile is_ws (rev (dropWhile is_ws s)))"

text \<open>
  \<open>s.split(/\s+/).length\<close>: one more than the number of maximal runs of white space
  in \<open>s\<close>. The flag says whether the previous code unit was white space.
\<close>

fun ws_runs :: "bool \<Rightarrow> utf16 \<Rightarrow> nat" where
  "ws_runs prev [] = 0"
| "ws_runs prev (c # cs) =
     (if is_ws c then (if prev then 0 else 1) + ws_runs True cs else ws_runs False cs)"

definition split_ws_length :: "utf16 \<Rightarrow> int" where
  "split_ws_length s = int (Suc (ws_runs False s))"

definition todays_mains :: "date \<Rightarrow> db \<Rightarrow> DailyMainsQuestion option" where
  "todays_mains now d = find (\<lambda>q. mn_date q = getToday now) (dailyMainsQuestions d)"

text \<open>
  \<open>startEvaluation\<close>: the upsert of the evaluation on its unique key \<open>attemptId\<close>, then
  \<open>setTimeout\<close> of the callback, which joins the pending timers.
\<close>

definition startEvaluation :: "nat \<Rightarrow> utf16 option \<Rightarrow> DailyMainsQuestion \<Rightarrow> db \<Rightarrow> db" where
  "startEvaluation attemptId answerText question d =
     (let (evaluation, rows, next) =
            upsert (\<lambda>e. ev_attemptId e = attemptId)
              (\<lambda>eid. \<lparr>ev_id = eid, ev_attemptId = attemptId, ev_score = 0,
                       ev_maxScore = mn_marks question, ev_status = ''evaluating'',
                       ev_evaluatedAt = None\<rparr>)
              (\<lambda>old. old\<lparr>ev_status := ''evaluating''\<rparr>)
              (mainsEvaluations d) (nextId d)
      in d\<lparr>mainsEvaluations := rows, nextId := next,
           timers := timers d @
             [\<lparr>tm_evaluationId = ev_id evaluation,
               tm_hasText = (case answerText of None \<Rightarrow> False | Some s \<Rightarrow> s \<noteq> []),
               tm_marks = mn_marks question\<rparr>]\<rparr>)"

text \<open>
  The callback when its timer fires; \<open>r\<close> is what \<open>Math.random()\<close> returns. An update
  of a row that is not there throws, and the callback's \<open>catch\<close> only logs. The score is
  computed exactly; the code's double can round the other way at a half (marks 36 with
  \<open>r = 0.125\<close>: 13 in the code, 14 here). The properties below use only the status the
  callback writes.
\<close>

definition evaluation_callback :: "rat \<Rightarrow> date \<Rightarrow> timer \<Rightarrow> db \<Rightarrow> db" where
  "evaluation_callback r now t d =
     (let marks = (of_int (tm_marks t) :: rat);
          score = (if tm_hasText t
                   then min marks (max 3 (of_int (js_round (r * marks * (6 / 10) + marks * (3 / 10)))))
                   else marks * (5 / 10));
          same = (\<lambda>e. ev_id e = tm_evaluationId t)
      in case find same (mainsEvaluations d) of
           None \<Rightarrow> d
         | Some _ \<Rightarrow>
             d\<lparr>mainsEvaluations :=
                 update_first same
                   (\<lambda>e. e\<lparr>ev_score := score, ev_status := ''completed'', ev_evaluatedAt := Some now\<rparr>)
                   (mainsEvaluations d)\<rparr>)"

text \<open>The \<open>k\<close>-th pending timer fires: it leaves the pending timers and its callback runs once.\<close>

definition timer_fires :: "nat \<Rightarrow> rat \<Rightarrow> date \<Rightarrow> db \<Rightarrow> db" where
  "timer_fires k r now d =
     (if k < length (timers d)
      then evaluation_callback r now (timers d ! k)
             (d\<lparr>timers := take k (timers d) @ drop (Suc k) (timers d)\<rparr>)
      else d)"

definition submitTextAnswer :: "date \<Rightarrow> nat \<Rightarrow> utf16 option \<Rightarrow> db \<Rightarrow> response \<times> db" where
  "submitTextAnswer now userId answerText d =
     (if (case answerText of None \<Rightarrow> True | Some s \<Rightarrow> s = [] \<or> length (trim s) = 0)
      then (error_reply 400 ''Answer text is required'', d)
      else
        (case todays_mains now d of
           None \<Rightarrow> (error_reply 404 ''No mains question for today'', d)
         | Some question \<Rightarrow>
             (let text = (case answerText of None \<Rightarrow> [] | Some s \<Rightarrow> s);
                  wordCount = split_ws_length (trim text);
                  (attempt, rows, next) =
                    upsert (\<lambda>a. mx_userId a = userId \<and> mx_questionId a = mn_id question)
                      (\<lambda>aid. \<lparr>mx_id = aid, mx_userId = userId, mx_questionId = mn_id question,
                               mx_answerText = Some text, mx_fileUrl = None,
                               mx_wordCount = Some wordCount, mx_submittedAt = Some now\<rparr>)
                      (\<lambda>old. old\<lparr>mx_answerText := Some text, mx_wordCount := Some wordCount,
                                  mx_submittedAt := Some now\<rparr>)
                      (mainsAttempts d) (nextId d);
                  d2 = d\<lparr>mainsAttempts := rows, nextId := next\<rparr>;
                  d3 = startEvaluation (mx_id attempt) (Some text) question d2;
                  d4 = logActivity userId ''answer'' ''Submitted Daily Answer'' d3
              in (success_reply (JObj [(''attemptId'', JNum (of_nat (mx_id attempt))),
                                       (''status'', JStr ''evaluating'')]),
                  d4))))"

definition uploadAnswer :: "date \<Rightarrow> nat \<Rightarrow> string option \<Rightarrow> db \<Rightarrow> response \<times> db" where
  "uploadAnswer now userId fileUrl d =
     (case todays_mains now d of
        None \<Rightarrow> (error_reply 404 ''No mains question for today'', d)
      | Some question \<Rightarrow>
          (let (attempt, rows, next) =
                 upsert (\<lambda>a. mx_userId a = userId \<and> mx_questionId a = mn_id question)
                   (\<lambda>aid. \<lparr>mx_id = aid, mx_userId = userId, mx_questionId = mn_id question,
                            mx_answerText = None, mx_fileUrl = fileUrl,
                            mx_wordCount = None, mx_submittedAt = Some now\<rparr>)
                   (\<lambda>old. old\<lparr>mx_fileUrl := (case fileUrl of None \<Rightarrow> mx_fileUrl old | Some u \<Rightarrow> Some u),
                               mx_submittedAt := Some now\<rparr>)
                   (mainsAttempts d) (nextId d);
               d2 = d\<lparr>mainsAttempts := rows, nextId := next\<rparr>;
               d3 = startEvaluation (mx_id attempt) None question d2;
               d4 = logActivity userId ''answer'' ''Uploaded Daily Answer'' d3
           in (success_reply (JObj [(''attemptId'', JNum (of_nat (mx_id attempt))),
                                    (''status'', JStr ''evaluating'')]),
               d4)))"

text \<open>The evaluation included with an attempt (\<open>include: { evaluation: true }\<close>).\<close>

definition evaluation_of :: "nat \<Rightarrow> db \<Rightarrow> MainsEvaluation option" where
  "evaluation_of attemptId d = find (\<lambda>e. ev_attemptId e = attemptId) (mainsEvaluations d)"

definition getEvaluationStatus :: "date \<Rightarrow> nat \<Rightarrow> db \<Rightarrow> response" where
  "getEvaluationStatus now userId d =
     (case todays_mains now d of
        None \<Rightarrow> error_reply 404 ''No mains question for today''
      | Some question \<Rightarrow>
          (case find (\<lambda>a. mx_userId a = userId \<and> mx_questionId a = mn_id question) (mainsAttempts d) of
             None \<Rightarrow> error_reply 404 ''No attempt found''
           | Some attempt \<Rightarrow>
               (let status = map_option ev_status (evaluation_of (mx_id attempt) d)
                in success_reply
                     (JObj [(''attemptId'', JNum (of_nat (mx_id attempt))),
                            (''evaluationStatus'', JStr (str_or status ''pending'')),
                            (''isComplete'', JBool (status = Some ''completed''))]))))"

section \<open>Runs of the server\<close>

text \<open>
  What can happen to the server's state, one event at a time: a submission reaches one
  of the submit handlers, or a pending timer fires.
\<close>

datatype event =
    SubmitMCQ date nat mcq_body
  | SubmitText date nat "utf16 option"
  | Upload date nat "string option"
  | TimerFires nat rat date

fun step :: "event \<Rightarrow> db \<Rightarrow> db" where
  "step (SubmitMCQ now userId body) d = snd (submitMCQ now userId body d)"
| "step (SubmitText now userId answerText) d = snd (submitTextAnswer now userId answerText d)"
| "step (Upload now userId fileUrl) d = snd (uploadAnswer now userId fileUrl d)"
| "step (TimerFires k r now) d = timer_fires k r now d"

fun run :: "event list \<Rightarrow> db \<Rightarrow> db" where
  "run [] d = d"
| "run (e # es) d = run es (step e d)"

text \<open>The key of the unique index of each attempt table.\<close>

definition mcq_key :: "MCQAttempt \<Rightarrow> nat \<times> nat" where
  "mcq_key a = (at_userId a, at_dailyMcqId a)"

definition mains_key :: "MainsAttempt \<Rightarrow> nat \<times> nat" where
  "mains_key a = (mx_userId a, mx_questionId a)"

definition one_attempt_per_item :: "db \<Rightarrow> bool" where
  "one_attempt_per_item d =
     (distinct (map mcq_key (mcqAttempts d)) \<and> distinct (map mains_key (mainsAttempts d)))"

text \<open>The place of a status on the path pending, evaluating, completed.\<close>

definition status_rank :: "string \<Rightarrow> nat" where
  "status_rank s = (if s = ''completed'' then 2 else if s = ''evaluating'' then 1 else 0)"

text \<open>The status \<open>getEvaluationStatus\<close> reports for an attempt.\<close>

definition status_of :: "nat \<Rightarrow> db \<Rightarrow> string" where
  "status_of attemptId d = str_or (map_option ev_status (evaluation_of attemptId d)) ''pending''"

section \<open>Notions of the specification and sample states\<close>

text \<open>The calendar day of a time value in the server's zone, as a day number.\<close>

definition day_of :: "date \<Rightarrow> int" where
  "day_of t = t div msPerDay"

text \<open>The order the streak counters of a row are expected to keep.\<close>

definition streak_inv :: "UserStreak \<Rightarrow> bool" where
  "streak_inv s = (us_currentStreak s \<le> us_longestStreak s)"

definition study_inv :: "StudyStreak \<Rightarrow> bool" where
  "study_inv s = (ss_currentStreak s \<le> ss_longestStreak s)"

text \<open>
  The specification's counts for a mock-test submission: a question is answered correctly
  when its selected answer is its correct option, wrongly when it has a selected answer
  that is not, and is skipped when it has no selected answer.
\<close>

definition correct_answers :: "(nat \<times> string) list option \<Rightarrow> MockTestQuestion list \<Rightarrow> nat" where
  "correct_answers answers qs =
     length (filter (\<lambda>q. selected_of answers (mq_id q) = Some (mq_correctOption q)) qs)"

definition wrong_answers :: "(nat \<times> string) list option \<Rightarrow> MockTestQuestion list \<Rightarrow> nat" where
  "wrong_answers answers qs =
     length (filter (\<lambda>q. selected_of answers (mq_id q) \<noteq> None
                         \<and> selected_of answers (mq_id q) \<noteq> Some (mq_correctOption q)) qs)"

definition skipped_answers :: "(nat \<times> string) list option \<Rightarrow> MockTestQuestion list \<Rightarrow> nat" where
  "skipped_answers answers qs = length (filter (\<lambda>q. selected_of answers (mq_id q) = None) qs)"

text \<open>The database before any row exists, and a stream of random draws that are all 0.\<close>

definition empty_db :: db where
  "empty_db = \<lparr>nextId = 0, mockTests = [], mockTestQuestions = [], mockTestAttempts = [],
                dailyMCQs = [], mcqQuestions = [], mcqAttempts = [], mcqResponses = [],
                dailyMainsQuestions = [], mainsAttempts = [], mainsEvaluations = [],
                userStreakTbl = Map.empty, userActivities = [], timers = []\<rparr>"

definition no_draws :: "nat \<Rightarrow> nat" where
  "no_draws k = 0"

text \<open>A database with one mock test of two questions.\<close>

definition mock_db :: db where
  "mock_db = empty_db
     \<lparr>nextId := 10,
      mockTests := [\<lparr>mt_id = 1, mt_title = ''Mixed - Prelims Practice'', mt_questionCount = 2,
                     mt_duration = 3, mt_totalMarks = 4\<rparr>],
      mockTestQuestions :=
        [\<lparr>mq_id = 2, mq_mockTestId = 1, mq_questionNum = 1, mq_subject = ''History'',
          mq_difficulty = ''Easy'', mq_correctOption = ''A''\<rparr>,
         \<lparr>mq_id = 3, mq_mockTestId = 1, mq_questionNum = 2, mq_subject = ''Economy'',
          mq_difficulty = ''Hard'', mq_correctOption = ''C''\<rparr>]\<rparr>"

text \<open>Two streak tables with one row each, last active on day 10.\<close>

definition streak_tbl :: "date option \<Rightarrow> userStreaks" where
  "streak_tbl l = [7 \<mapsto> \<lparr>us_userId = 7, us_currentStreak = 3, us_longestStreak = 5,
                          us_lastActiveDate = l, us_weekActivity = []\<rparr>]"

definition study_tbl :: "date option \<Rightarrow> studyStreaks" where
  "study_tbl l = [7 \<mapsto> \<lparr>ss_userId = 7, ss_currentStreak = 3, ss_longestStreak = 5,
                         ss_totalStudyDays = 9, ss_lastStudyDate = l\<rparr>]"

text \<open>
  Runs of the mock-test handlers: a test is generated or a test is submitted. A
  generation request is admitted when the question count it asks for, after the default,
  is not negative.
\<close>

datatype mock_event =
    Generate "nat \<Rightarrow> nat" nat generate_body
  | Submit date nat nat submit_body

fun mock_step :: "mock_event \<Rightarrow> db \<Rightarrow> db" where
  "mock_step (Generate rnd userId body) d = snd (generateTest rnd userId body d)"
| "mock_step (Submit now userId testId body) d = snd (submitTest now userId testId body d)"

fun mock_run :: "mock_event list \<Rightarrow> db \<Rightarrow> db" where
  "mock_run [] d = d"
| "mock_run (e # es) d = mock_run es (mock_step e d)"

fun count_given :: "mock_event \<Rightarrow> bool" where
  "count_given (Generate rnd userId body) = (0 \<le> num_or (gb_questionCount body) 10)"
| "count_given (Submit now userId testId body) = True"

text \<open>
  The mock-test tables as \<open>generateTest\<close> leaves them: primary keys in use are below
  the key counter, every test has \<open>totalMarks\<close> twice its \<open>questionCount\<close>, which is the
  number of its question rows, and every stored attempt has its score between 0 and its
  \<open>totalMarks\<close>.
\<close>

definition score_in_range :: "MockTestAttempt \<Rightarrow> bool" where
  "score_in_range a = (0 \<le> ma_score a \<and> ma_score a \<le> of_int (ma_totalMarks a))"

definition mock_inv :: "db \<Rightarrow> bool" where
  "mock_inv d =
     ((\<forall>t\<in>set (mockTests d). mt_id t < nextId d)
      \<and> (\<forall>q\<in>set (mockTestQuestions d). mq_mockTestId q < nextId d)
      \<and> (\<forall>t\<in>set (mockTests d).
            mt_totalMarks t = 2 * mt_questionCount t
            \<and> mt_questionCount t =
                int (length (filter (\<lambda>q. mq_mockTestId q = mt_id t) (mockTestQuestions d))))
      \<and> (\<forall>a\<in>set (mockTestAttempts d). score_in_range a))"

text \<open>
  The guard of \<open>submitMCQ\<close>: the user's attempt at this daily MCQ exists and has its
  \<open>completedAt\<close> set.
\<close>

definition has_completed :: "nat \<Rightarrow> nat \<Rightarrow> db \<Rightarrow> bool" where
  "has_completed uid mcqId d =
     (case find (\<lambda>x. mcq_key x = (uid, mcqId)) (mcqAttempts d) of
        None \<Rightarrow> False
      | Some a \<Rightarrow> at_completedAt a \<noteq> None)"

text \<open>
  A question with its answer columns blanked: two tables of questions that differ only
  in \<open>correctOption\<close> and \<open>explanation\<close> are equal once redacted.
\<close>

definition redact :: "MCQQuestion \<Rightarrow> MCQQuestion" where
  "redact q = q\<lparr>qn_correctOption := [], qn_explanation := []\<rparr>"

text \<open>The member names of a JSON object, and the questions a response carries.\<close>

fun keys_of :: "json \<Rightarrow> string list" where
  "keys_of (JObj kvs) = map fst kvs"
| "keys_of _ = []"

definition response_questions :: "response \<Rightarrow> json list" where
  "response_questions r =
     (case member (res_body r) ''data'' of
        None \<Rightarrow> []
      | Some data \<Rightarrow> (case member data ''questions'' of Some (JArr qs) \<Rightarrow> qs | _ \<Rightarrow> []))"

text \<open>The object \<open>getTodayQuestions\<close> returns for a question.\<close>

definition question_view :: "MCQQuestion \<Rightarrow> json" where
  "question_view q =
     prisma_select [''id'', ''questionNum'', ''questionText'', ''category'', ''difficulty'', ''options'']
       (question_row q)"

text \<open>
  A database with the daily MCQ (two questions) and the daily mains question of day 10,
  the same questions with other answer columns, and a request body answering both.
\<close>

definition daily_db :: db where
  "daily_db = empty_db
     \<lparr>nextId := 10,
      dailyMCQs := [\<lparr>dm_id = 1, dm_date = 864000000, dm_questionCount = 2, dm_timeLimit = 10,
                     dm_totalMarks = 4\<rparr>],
      mcqQuestions :=
        [\<lparr>qn_id = 3, qn_dailyMcqId = 1, qn_questionNum = 2, qn_questionText = ''Second?'',
          qn_category = ''Polity'', qn_difficulty = ''Hard'', qn_options = JArr [JStr ''A'', JStr ''B''],
          qn_correctOption = ''B'', qn_explanation = ''Because B''\<rparr>,
         \<lparr>qn_id = 2, qn_dailyMcqId = 1, qn_questionNum = 1, qn_questionText = ''First?'',
          qn_category = ''History'', qn_difficulty = ''Easy'', qn_options = JArr [JStr ''A'', JStr ''B''],
          qn_correctOption = ''A'', qn_explanation = ''Because A''\<rparr>],
      dailyMainsQuestions := [\<lparr>mn_id = 5, mn_date = 864000000, mn_subject = ''Polity'', mn_marks = 10\<rparr>]\<rparr>"

definition other_answers :: "MCQQuestion list" where
  "other_answers =
        [\<lparr>qn_id = 3, qn_dailyMcqId = 1, qn_questionNum = 2, qn_questionText = ''Second?'',
          qn_category = ''Polity'', qn_difficulty = ''Hard'', qn_options = JArr [JStr ''A'', JStr ''B''],
          qn_correctOption = ''A'', qn_explanation = ''It was A''\<rparr>,
         \<lparr>qn_id = 2, qn_dailyMcqId = 1, qn_questionNum = 1, qn_questionText = ''First?'',
          qn_category = ''History'', qn_difficulty = ''Easy'', qn_options = JArr [JStr ''A'', JStr ''B''],
          qn_correctOption = ''B'', qn_explanation = ''''\<rparr>]"

definition two_answers :: mcq_body where
  "two_answers = \<lparr>mb_answers = Some [\<lparr>an_questionId = 2, an_selectedOption = Some ''A'', an_timeTaken = Some 30\<rparr>,
                                      \<lparr>an_questionId = 3, an_selectedOption = Some ''A'', an_timeTaken = None\<rparr>],
                  mb_timeTaken = Some 75\<rparr>"




section \<open>Auxiliary facts\<close>

subsection \<open>Days\<close>

lemma setHours0_day: "setHours0 t = day_of t * msPerDay"
  by (simp add: setHours0_def day_of_def minus_mod_eq_div_mult)

lemma same_day_iff: "setHours0 a = setHours0 b \<longleftrightarrow> day_of a = day_of b"
  by (simp add: setHours0_day msPerDay_def)

lemma day_before_iff: "setHours0 a = dayBefore (setHours0 b) \<longleftrightarrow> day_of a = day_of b - 1"
proof -
  have "setHours0 a = dayBefore (setHours0 b) \<longleftrightarrow> (day_of a + 1) * msPerDay = day_of b * msPerDay"
    by (simp add: setHours0_day dayBefore_def algebra_simps)
  also have "\<dots> \<longleftrightarrow> day_of a + 1 = day_of b"
  proof -
    have "msPerDay \<noteq> 0" by (simp add: msPerDay_def)
    then show ?thesis by (simp only: mult_cancel_right) simp
  qed
  finally show ?thesis by auto
qed

lemma last_today_iff:
  "map_option setHours0 l = Some (setHours0 now) \<longleftrightarrow> map_option day_of l = Some (day_of now)"
  by (cases l) (simp_all add: same_day_iff)

lemma last_yesterday_iff:
  "map_option setHours0 l = Some (dayBefore (setHours0 now)) \<longleftrightarrow> map_option day_of l = Some (day_of now - 1)"
  by (cases l) (simp_all add: day_before_iff)

lemma updateStreak_row:
  assumes "tbl uid = Some s"
  shows "updateStreak now uid tbl =
    (if map_option day_of (us_lastActiveDate s) = Some (day_of now) then tbl
     else tbl(uid \<mapsto> s\<lparr>us_currentStreak :=
                          (if map_option day_of (us_lastActiveDate s) = Some (day_of now - 1)
                           then us_currentStreak s + 1 else 1),
                        us_longestStreak :=
                          max (if map_option day_of (us_lastActiveDate s) = Some (day_of now - 1)
                               then us_currentStreak s + 1 else 1) (us_longestStreak s),
                        us_lastActiveDate := Some (setHours0 now),
                        us_weekActivity := getWeekActivity (setHours0 now)\<rparr>))"
  unfolding updateStreak_def Let_def last_today_iff last_yesterday_iff
  using assms by simp

lemma updateStudyStreak_row:
  assumes "tbl uid = Some s"
  shows "updateStudyStreak now uid tbl =
    (if map_option day_of (ss_lastStudyDate s) = Some (day_of now) then tbl
     else tbl(uid \<mapsto> s\<lparr>ss_currentStreak :=
                          (if map_option day_of (ss_lastStudyDate s) = Some (day_of now - 1)
                           then ss_currentStreak s + 1 else 1),
                        ss_longestStreak :=
                          max (if map_option day_of (ss_lastStudyDate s) = Some (day_of now - 1)
                               then ss_currentStreak s + 1 else 1) (ss_longestStreak s),
                        ss_totalStudyDays := ss_totalStudyDays s + 1,
                        ss_lastStudyDate := Some (setHours0 now)\<rparr>))"
  unfolding updateStudyStreak_def getToday_def Let_def last_today_iff last_yesterday_iff
  using assms by simp

subsection \<open>Rounding and lists\<close>

lemma floor_numeral_div:
  "\<lfloor>(numeral a :: rat) / numeral b\<rfloor> = numeral a div numeral b"
  "\<lfloor>- (numeral a :: rat) / numeral b\<rfloor> = - numeral a div numeral b"
  using floor_divide_of_int_eq [of "numeral a" "numeral b", where ?'a = rat]
        floor_divide_of_int_eq [of "- numeral a" "numeral b", where ?'a = rat]
  by simp_all

lemma round1_le: "x \<le> of_int n \<Longrightarrow> round1 x \<le> of_int n"
proof -
  assume "x \<le> of_int n"
  then have "x * 10 + 1 / 2 \<le> of_int (10 * n) + 1 / 2" by simp
  then have "\<lfloor>x * 10 + 1 / 2\<rfloor> \<le> \<lfloor>(of_int (10 * n) :: rat) + 1 / 2\<rfloor>" by (rule floor_mono)
  also have "\<dots> = 10 * n" by linarith
  finally have "js_round (x * 10) \<le> 10 * n" by (simp add: js_round_def)
  then have "(of_int (js_round (x * 10)) :: rat) \<le> of_int (10 * n)" by (simp only: of_int_le_iff)
  then show ?thesis by (simp add: round1_def)
qed

lemma stored_score_bounds:
  "0 \<le> max 0 (round1 (raw_score c w)) \<and> max 0 (round1 (raw_score c w)) \<le> 2 * of_nat c"
proof -
  have "raw_score c w \<le> of_int (2 * int c)" by (simp add: raw_score_def)
  then have "round1 (raw_score c w) \<le> of_int (2 * int c)" by (rule round1_le)
  then show ?thesis by simp
qed

lemma dropWhile_all: "\<forall>c\<in>set s. p c \<Longrightarrow> dropWhile p s = []"
  by (induction s) auto

lemma trim_blank: "\<forall>c\<in>set s. is_ws c \<Longrightarrow> trim s = []"
  by (simp add: trim_def dropWhile_all)

subsection \<open>Mock tests\<close>

lemma tally_counts:
  "tally answers qs (c, w, s) =
     (c + correct_answers answers qs, w + wrong_answers answers qs, s + skipped_answers answers qs)"
proof (induction qs arbitrary: c w s)
  case Nil
  then show ?case by (simp add: correct_answers_def wrong_answers_def skipped_answers_def)
next
  case (Cons q qs)
  show ?case
  proof (cases "selected_of answers (mq_id q)")
    case None
    then show ?thesis
      by (simp add: Cons.IH correct_answers_def wrong_answers_def skipped_answers_def)
  next
    case (Some sel)
    then show ?thesis
      by (simp add: Cons.IH correct_answers_def wrong_answers_def skipped_answers_def)
  qed
qed

lemma counts_total:
  "correct_answers answers qs + wrong_answers answers qs + skipped_answers answers qs = length qs"
  unfolding correct_answers_def wrong_answers_def skipped_answers_def
  by (induction qs) auto

lemma submitTest_attempts:
  assumes "find (\<lambda>t. mt_id t = testId) (mockTests d) = Some test"
  shows "mockTestAttempts (snd (submitTest now userId testId body d)) =
         mockTestAttempts d @
           [\<lparr>ma_id = nextId d, ma_userId = userId, ma_mockTestId = testId,
             ma_answers = (case sb_answers body of None \<Rightarrow> [] | Some kvs \<Rightarrow> kvs),
             ma_score = max 0 (round1 (raw_score
                 (correct_answers (sb_answers body) (test_questions testId d))
                 (wrong_answers (sb_answers body) (test_questions testId d)))),
             ma_totalMarks = mt_totalMarks test,
             ma_correctCount = correct_answers (sb_answers body) (test_questions testId d),
             ma_wrongCount = wrong_answers (sb_answers body) (test_questions testId d),
             ma_skippedCount = skipped_answers (sb_answers body) (test_questions testId d),
             ma_accuracy = round1 (accuracy_of
                 (correct_answers (sb_answers body) (test_questions testId d))
                 (wrong_answers (sb_answers body) (test_questions testId d))),
             ma_timeTaken = num_or (sb_timeTaken body) 0,
             ma_completedAt = Some now\<rparr>]"
  using assms
  by (simp add: submitTest_def tally_counts fresh_def logActivity_def Let_def)

lemma create_questions_tests [simp]:
  "mockTests (create_questions rnd sl dl tid is d) = mockTests d"
  by (induction "is" arbitrary: d) (simp_all add: fresh_def)

lemma generateTest_tests:
  "mockTests (snd (generateTest rnd userId body d)) =
   mockTests d @
     [\<lparr>mt_id = nextId d,
       mt_title = str_or (gb_subject body) ''Mixed'' @ '' - '' @ str_or (gb_examMode body) ''Prelims'' @ '' Practice'',
       mt_questionCount = min (num_or (gb_questionCount body) 10) 100,
       mt_duration = js_round (of_int (min (num_or (gb_questionCount body) 10) 100) * (16 / 10)),
       mt_totalMarks = min (num_or (gb_questionCount body) 10) 100 * 2\<rparr>]"
  by (simp add: generateTest_def fresh_def logActivity_def Let_def)

lemma create_questions_rows:
  "\<exists>qs. mockTestQuestions (create_questions rnd sl dl tid is d) = mockTestQuestions d @ qs
        \<and> (\<forall>q\<in>set qs. mq_mockTestId q = tid) \<and> length qs = length is"
proof (induction "is" arbitrary: d)
  case Nil
  then show ?case by simp
next
  case (Cons i "is")
  let ?d = "(snd (fresh d))\<lparr>mockTestQuestions := mockTestQuestions (snd (fresh d)) @
              [generated_question rnd sl dl tid (fst (fresh d)) i]\<rparr>"
  obtain qs where qs: "mockTestQuestions (create_questions rnd sl dl tid is ?d) = mockTestQuestions ?d @ qs"
    "\<forall>q\<in>set qs. mq_mockTestId q = tid" "length qs = length is"
    using Cons.IH [of ?d] by blast
  have "mockTestQuestions (create_questions rnd sl dl tid (i # is) d) =
        mockTestQuestions d @ (generated_question rnd sl dl tid (fst (fresh d)) i # qs)"
    using qs(1) by (simp add: case_prod_beta fresh_def)
  moreover have "\<forall>q\<in>set (generated_question rnd sl dl tid (fst (fresh d)) i # qs). mq_mockTestId q = tid"
    using qs(2) by (simp add: generated_question_def Let_def)
  moreover have "length (generated_question rnd sl dl tid (fst (fresh d)) i # qs) = length (i # is)"
    using qs(3) by simp
  ultimately show ?case by blast
qed

lemma create_questions_others [simp]:
  "mockTestAttempts (create_questions rnd sl dl tid is d) = mockTestAttempts d"
  "nextId d \<le> nextId (create_questions rnd sl dl tid is d)"
proof (induction "is" arbitrary: d)
  case Nil
  {
    case 1 show ?case by simp
  next
    case 2 show ?case by simp
  }
next
  case (Cons i "is")
  {
    case 1 show ?case by (simp add: case_prod_beta fresh_def Cons.IH(1))
  next
    case 2
    let ?d = "(snd (fresh d))\<lparr>mockTestQuestions := mockTestQuestions (snd (fresh d)) @
              [generated_question rnd sl dl tid (fst (fresh d)) i]\<rparr>"
    have "nextId ?d \<le> nextId (create_questions rnd sl dl tid is ?d)" by (rule Cons.IH(2))
    then show ?case by (simp add: case_prod_beta fresh_def)
  }
qed

lemma create_questions_onto:
  assumes "mockTestQuestions d2 = base" and "length is = m"
  shows "\<exists>qs. mockTestQuestions (create_questions rnd sl dl tid is d2) = base @ qs
        \<and> (\<forall>q\<in>set qs. mq_mockTestId q = tid) \<and> length qs = m"
  using create_questions_rows [of rnd sl dl tid "is" d2] assms by simp

lemma generateTest_rows:
  "\<exists>qs. mockTestQuestions (snd (generateTest rnd userId body d)) = mockTestQuestions d @ qs
        \<and> (\<forall>q\<in>set qs. mq_mockTestId q = nextId d)
        \<and> length qs = nat (min (num_or (gb_questionCount body) 10) 100)"
  apply (simp add: generateTest_def fresh_def logActivity_def Let_def)
  apply (intro conjI impI)
   apply (rule create_questions_onto; simp)+
  done

lemma generateTest_counter:
  "nextId d < nextId (snd (generateTest rnd userId body d))"
proof -
  have "Suc (nextId d) \<le> nextId (create_questions rnd sl dl tid is (d\<lparr>nextId := Suc (nextId d), mockTests := ts\<rparr>))"
    for sl dl tid "is" ts
    using create_questions_others(2) [of "d\<lparr>nextId := Suc (nextId d), mockTests := ts\<rparr>" rnd sl dl tid "is"]
    by simp
  then show ?thesis
    by (simp add: generateTest_def fresh_def logActivity_def Let_def Suc_le_eq)
qed

lemma generateTest_attempts [simp]:
  "mockTestAttempts (snd (generateTest rnd userId body d)) = mockTestAttempts d"
  by (simp add: generateTest_def fresh_def logActivity_def Let_def)

lemma generateTest_keeps_inv:
  assumes inv: "mock_inv d" and count: "0 \<le> num_or (gb_questionCount body) 10"
  shows "mock_inv (snd (generateTest rnd userId body d))"
proof -
  let ?d' = "snd (generateTest rnd userId body d)"
  let ?n = "min (num_or (gb_questionCount body) 10) 100"
  obtain qs where qs: "mockTestQuestions ?d' = mockTestQuestions d @ qs"
    "\<forall>q\<in>set qs. mq_mockTestId q = nextId d" "length qs = nat ?n"
    using generateTest_rows [of rnd userId body d] by blast
  have n0: "0 \<le> ?n" using count by simp
  have lt: "nextId d < nextId ?d'" by (rule generateTest_counter)
  have old_q: "\<forall>q\<in>set (mockTestQuestions d). mq_mockTestId q < nextId d"
    and old_t: "\<forall>t\<in>set (mockTests d). mt_id t < nextId d"
    using inv by (simp_all add: mock_inv_def)
  have none_old: "filter (\<lambda>q. mq_mockTestId q = nextId d) (mockTestQuestions d) = []"
    using old_q by (auto simp: filter_empty_conv)
  have all_new: "filter (\<lambda>q. mq_mockTestId q = nextId d) qs = qs"
    using qs(2) by (simp add: filter_id_conv)
  have other: "filter (\<lambda>q. mq_mockTestId q = mt_id t) qs = []" if "t \<in> set (mockTests d)" for t
    using that old_t qs(2) by (auto simp: filter_empty_conv)
  show ?thesis
    unfolding mock_inv_def
  proof (intro conjI ballI)
    fix t assume "t \<in> set (mockTests ?d')"
    then show "mt_id t < nextId ?d'"
      using old_t lt by (auto simp: generateTest_tests)
  next
    fix q assume "q \<in> set (mockTestQuestions ?d')"
    then show "mq_mockTestId q < nextId ?d'"
      using old_q lt qs(2) by (auto simp: qs(1))
  next
    fix t assume "t \<in> set (mockTests ?d')"
    then show "mt_totalMarks t = 2 * mt_questionCount t"
      using inv by (auto simp: generateTest_tests mock_inv_def)
  next
    fix t assume t: "t \<in> set (mockTests ?d')"
    show "mt_questionCount t =
            int (length (filter (\<lambda>q. mq_mockTestId q = mt_id t) (mockTestQuestions ?d')))"
    proof (cases "t \<in> set (mockTests d)")
      case True
      then show ?thesis using inv other [OF True] by (simp add: qs(1) mock_inv_def)
    next
      case False
      with t have "mt_id t = nextId d" "mt_questionCount t = ?n"
        by (auto simp: generateTest_tests)
      then show ?thesis using none_old all_new qs(3) n0 by (simp add: qs(1))
    qed
  next
    fix a assume "a \<in> set (mockTestAttempts ?d')"
    then show "score_in_range a" using inv by (simp add: mock_inv_def)
  qed
qed

lemma submitTest_frame [simp]:
  "mockTests (snd (submitTest now userId testId body d)) = mockTests d"
  "mockTestQuestions (snd (submitTest now userId testId body d)) = mockTestQuestions d"
  by (simp_all add: submitTest_def fresh_def logActivity_def Let_def case_prod_beta split: option.splits)

lemma submitTest_counter:
  "nextId d \<le> nextId (snd (submitTest now userId testId body d))"
  by (simp add: submitTest_def fresh_def logActivity_def Let_def case_prod_beta split: option.splits)

lemma submitTest_keeps_inv:
  assumes inv: "mock_inv d"
  shows "mock_inv (snd (submitTest now userId testId body d))"
proof (cases "find (\<lambda>t. mt_id t = testId) (mockTests d)")
  case None
  with inv show ?thesis by (simp add: submitTest_def)
next
  case (Some test)
  let ?d' = "snd (submitTest now userId testId body d)"
  let ?qs = "test_questions testId d"
  let ?c = "correct_answers (sb_answers body) ?qs"
  let ?w = "wrong_answers (sb_answers body) ?qs"
  from Some have test: "test \<in> set (mockTests d)" "mt_id test = testId"
    by (auto simp: find_Some_iff in_set_conv_nth)
  then have marks: "mt_totalMarks test = 2 * int (length ?qs)"
    using inv by (auto simp: mock_inv_def test_questions_def)
  have "?c \<le> length ?qs"
    using counts_total [of "sb_answers body" ?qs] by simp
  then have "2 * (of_nat ?c :: rat) \<le> of_int (mt_totalMarks test)"
    unfolding marks by (simp add: of_nat_le_iff [symmetric, where ?'a = rat] del: of_nat_le_iff)
  then have new: "score_in_range a"
    if "a \<in> set (mockTestAttempts ?d')" "a \<notin> set (mockTestAttempts d)" for a
    using that stored_score_bounds [of ?c ?w]
    by (auto simp: submitTest_attempts [OF Some] score_in_range_def)
  have lt: "nextId d \<le> nextId ?d'" by (rule submitTest_counter)
  show ?thesis
    unfolding mock_inv_def
  proof (intro conjI ballI)
    fix t assume "t \<in> set (mockTests ?d')"
    then show "mt_id t < nextId ?d'" using inv lt by (fastforce simp: mock_inv_def)
  next
    fix q assume "q \<in> set (mockTestQuestions ?d')"
    then show "mq_mockTestId q < nextId ?d'" using inv lt by (fastforce simp: mock_inv_def)
  next
    fix t assume "t \<in> set (mockTests ?d')"
    then show "mt_totalMarks t = 2 * mt_questionCount t" using inv by (simp add: mock_inv_def)
  next
    fix t assume "t \<in> set (mockTests ?d')"
    then show "mt_questionCount t =
            int (length (filter (\<lambda>q. mq_mockTestId q = mt_id t) (mockTestQuestions ?d')))"
      using inv by (simp add: mock_inv_def)
  next
    fix a assume "a \<in> set (mockTestAttempts ?d')"
    then show "score_in_range a"
      using new [of a] inv by (cases "a \<in> set (mockTestAttempts d)") (auto simp: mock_inv_def)
  qed
qed

lemma mock_step_keeps_inv:
  "mock_inv d \<Longrightarrow> count_given e \<Longrightarrow> mock_inv (mock_step e d)"
  by (cases e) (simp_all add: generateTest_keeps_inv submitTest_keeps_inv)

lemma mock_run_keeps_inv:
  "mock_inv d \<Longrightarrow> \<forall>e\<in>set es. count_given e \<Longrightarrow> mock_inv (mock_run es d)"
  by (induction es arbitrary: d) (simp_all add: mock_step_keeps_inv)

subsection \<open>Finding and updating rows\<close>

lemma find_append_one:
  "find p (xs @ [y]) = (case find p xs of Some x \<Rightarrow> Some x | None \<Rightarrow> if p y then Some y else None)"
  by (induction xs) auto

lemma find_update_first_self:
  "find p xs = Some old \<Longrightarrow> p (u old) \<Longrightarrow> find p (update_first p u xs) = Some (u old)"
  by (induction xs) (auto split: if_splits)

lemma find_update_first_other:
  "(\<And>x. p x \<Longrightarrow> \<not> q x \<and> \<not> q (u x)) \<Longrightarrow> find q (update_first p u xs) = find q xs"
  by (induction xs) auto

lemma find_update_first_kept:
  assumes "\<And>x. q (u x) = q x"
  shows "find q (update_first p u xs) = find q xs
         \<or> (\<exists>e. find q xs = Some e \<and> p e \<and> find q (update_first p u xs) = Some (u e))"
  by (induction xs) (auto simp: assms)



lemma upsert_find_self:
  assumes "wh (c n)" and "\<And>x. wh x \<Longrightarrow> wh (u x)"
  shows "find wh (fst (snd (upsert wh c u rows n))) = Some (fst (upsert wh c u rows n))"
proof (cases "find wh rows")
  case None
  with assms(1) show ?thesis by (simp add: upsert_def find_append_one)
next
  case (Some old)
  then have "wh old" by (auto simp: find_Some_iff)
  with Some assms(2) show ?thesis by (simp add: upsert_def find_update_first_self)
qed

lemma upsert_find_other:
  assumes "\<not> q (c n)" and "\<And>x. wh x \<Longrightarrow> \<not> q x \<and> \<not> q (u x)" and "find q rows \<noteq> None"
  shows "find q (fst (snd (upsert wh c u rows n))) = find q rows"
proof (cases "find wh rows")
  case None
  with assms(1,3) show ?thesis by (auto simp: upsert_def find_append_one split: option.splits)
next
  case (Some old)
  with assms(2) show ?thesis by (simp add: upsert_def find_update_first_other)
qed

subsection \<open>What the handlers leave alone\<close>

lemma save_responses_frame [simp]:
  "mcqAttempts (save_responses aid rs d) = mcqAttempts d"
  "dailyMCQs (save_responses aid rs d) = dailyMCQs d"
  "mainsAttempts (save_responses aid rs d) = mainsAttempts d"
  by (induction rs arbitrary: d; simp add: case_prod_beta Let_def)+

lemma startEvaluation_frame [simp]:
  "mcqAttempts (startEvaluation aid ans q d) = mcqAttempts d"
  "dailyMCQs (startEvaluation aid ans q d) = dailyMCQs d"
  "mainsAttempts (startEvaluation aid ans q d) = mainsAttempts d"
  "dailyMainsQuestions (startEvaluation aid ans q d) = dailyMainsQuestions d"
  by (simp_all add: startEvaluation_def case_prod_beta Let_def)

lemma timer_fires_frame [simp]:
  "mcqAttempts (timer_fires k r now d) = mcqAttempts d"
  "dailyMCQs (timer_fires k r now d) = dailyMCQs d"
  "mainsAttempts (timer_fires k r now d) = mainsAttempts d"
  "dailyMainsQuestions (timer_fires k r now d) = dailyMainsQuestions d"
  by (simp_all add: timer_fires_def evaluation_callback_def Let_def split: option.splits)

lemma logActivity_frame [simp]:
  "mcqAttempts (logActivity u ty ti d) = mcqAttempts d"
  "dailyMCQs (logActivity u ty ti d) = dailyMCQs d"
  "mainsAttempts (logActivity u ty ti d) = mainsAttempts d"
  "dailyMainsQuestions (logActivity u ty ti d) = dailyMainsQuestions d"
  "mainsEvaluations (logActivity u ty ti d) = mainsEvaluations d"
  "timers (logActivity u ty ti d) = timers d"
  by (simp_all add: logActivity_def)

lemma status_of_logActivity [simp]:
  "status_of aid (logActivity u ty ti d) = status_of aid d"
  by (simp add: status_of_def evaluation_of_def)

lemma status_of_timers [simp]: "status_of aid (d\<lparr>timers := ts\<rparr>) = status_of aid d"
  by (simp add: status_of_def evaluation_of_def)

subsection \<open>Daily MCQ\<close>

lemma question_view_redact: "question_view (redact q) = question_view q"
  by (simp add: question_view_def question_row_def prisma_select_def redact_def)

lemma keys_of_question_view:
  "keys_of (question_view q) =
     [''id'', ''questionNum'', ''questionText'', ''category'', ''difficulty'', ''options'']"
  by (simp add: question_view_def question_row_def prisma_select_def)

lemma insort_key_redact:
  "map redact (insort_key qn_questionNum a xs) = insort_key qn_questionNum (redact a) (map redact xs)"
  by (induction xs) (simp_all add: redact_def)

lemma sort_key_redact:
  "map redact (sort_key qn_questionNum xs) = sort_key qn_questionNum (map redact xs)"
  by (induction xs) (simp_all add: insort_key_redact)

lemma filter_redact:
  "filter (\<lambda>q. qn_dailyMcqId q = m) (map redact xs) = map redact (filter (\<lambda>q. qn_dailyMcqId q = m) xs)"
  by (induction xs) (simp_all add: redact_def)

lemma views_depend_on_redacted:
  "map question_view (sort_key qn_questionNum (filter (\<lambda>q. qn_dailyMcqId q = m) xs)) =
   map question_view (sort_key qn_questionNum (filter (\<lambda>q. qn_dailyMcqId q = m) (map redact xs)))"
proof -
  have "map question_view ys = map question_view (map redact ys)" for ys
    by (simp add: question_view_redact)
  then show ?thesis
    by (simp only: filter_redact sort_key_redact [symmetric])
qed

lemma getTodayQuestions_views:
  "getTodayQuestions now d =
     (case todays_mcq now d of
        None \<Rightarrow> error_reply 404 ''No MCQ challenge available for today''
      | Some mcq \<Rightarrow>
          success_reply (JObj [(''mcqId'', JNum (of_nat (dm_id mcq))),
                               (''timeLimit'', JNum (of_int (dm_timeLimit mcq))),
                               (''totalMarks'', JNum (of_int (dm_totalMarks mcq))),
                               (''questions'', JArr (map question_view
                                   (sort_key qn_questionNum
                                      (filter (\<lambda>q. qn_dailyMcqId q = dm_id mcq) (mcqQuestions d)))))]))"
  by (simp add: getTodayQuestions_def questions_of_def question_view_def [abs_def] Let_def
        split: option.splits)

lemma mcq_mine: "(\<lambda>x. at_userId x = uid \<and> at_dailyMcqId x = m) = (\<lambda>x. mcq_key x = (uid, m))"
  by (simp add: mcq_key_def)

lemma submitMCQ_noop:
  "todays_mcq now d = None \<or> (\<exists>mcq. todays_mcq now d = Some mcq \<and> has_completed uid (dm_id mcq) d) \<Longrightarrow>
   snd (submitMCQ now uid body d) = d \<and> res_code (fst (submitMCQ now uid body d)) \<noteq> 200"
  by (auto simp: submitMCQ_def has_completed_def mcq_mine error_reply_def json_reply_def Let_def
        split: option.splits)

lemma submitMCQ_shape:
  assumes "todays_mcq now d = Some mcq" and "\<not> has_completed uid (dm_id mcq) d"
  shows "\<exists>c u. (\<forall>n. mcq_key (c n) = (uid, dm_id mcq) \<and> at_completedAt (c n) = Some now)
            \<and> (\<forall>x. mcq_key (u x) = mcq_key x \<and> at_completedAt (u x) = Some now)
            \<and> mcqAttempts (snd (submitMCQ now uid body d)) =
                fst (snd (upsert (\<lambda>x. mcq_key x = (uid, dm_id mcq)) c u (mcqAttempts d) (nextId d)))
            \<and> res_code (fst (submitMCQ now uid body d)) = 200"
proof -
  have open_: "\<not> (case find (\<lambda>x. mcq_key x = (uid, dm_id mcq)) (mcqAttempts d) of
                    None \<Rightarrow> False | Some a \<Rightarrow> at_completedAt a \<noteq> None)"
    using assms(2) by (simp add: has_completed_def)
  show ?thesis
    using assms(1) open_
    apply (simp add: submitMCQ_def mcq_mine Let_def case_prod_beta success_reply_def json_reply_def)
    apply (intro exI conjI)
      prefer 3
      apply (rule refl)
     apply (simp_all add: mcq_key_def)
    done
qed

lemma submitMCQ_frame [simp]:
  "dailyMCQs (snd (submitMCQ now uid body d)) = dailyMCQs d"
  "mainsAttempts (snd (submitMCQ now uid body d)) = mainsAttempts d"
  by (simp_all add: submitMCQ_def Let_def case_prod_beta split: option.splits)

lemma mains_handlers_frame [simp]:
  "dailyMCQs (snd (submitTextAnswer now uid ans d)) = dailyMCQs d"
  "mcqAttempts (snd (submitTextAnswer now uid ans d)) = mcqAttempts d"
  "dailyMCQs (snd (uploadAnswer now uid url d)) = dailyMCQs d"
  "mcqAttempts (snd (uploadAnswer now uid url d)) = mcqAttempts d"
  by (simp_all add: submitTextAnswer_def uploadAnswer_def Let_def case_prod_beta split: option.splits)

lemma submitMCQ_rejects_completed:
  "todays_mcq now d = Some mcq \<Longrightarrow> has_completed uid (dm_id mcq) d \<Longrightarrow>
   submitMCQ now uid body d = (error_reply 400 ''You have already submitted today's MCQ'', d)"
  by (simp add: submitMCQ_def has_completed_def mcq_mine Let_def split: option.splits)

lemma submitMCQ_completes:
  assumes "res_code (fst (submitMCQ now uid body d)) = 200"
  shows "\<exists>mcq. todays_mcq now d = Some mcq \<and> has_completed uid (dm_id mcq) (snd (submitMCQ now uid body d))"
proof -
  obtain mcq where mcq: "todays_mcq now d = Some mcq" and fresh_: "\<not> has_completed uid (dm_id mcq) d"
    using submitMCQ_noop [of now d uid body] assms by (cases "todays_mcq now d") auto
  obtain c u where c: "\<And>n. mcq_key (c n) = (uid, dm_id mcq) \<and> at_completedAt (c n) = Some now"
    and u: "\<And>x. mcq_key (u x) = mcq_key x \<and> at_completedAt (u x) = Some now"
    and rows: "mcqAttempts (snd (submitMCQ now uid body d)) =
                fst (snd (upsert (\<lambda>x. mcq_key x = (uid, dm_id mcq)) c u (mcqAttempts d) (nextId d)))"
    using submitMCQ_shape [OF mcq fresh_] by blast
  have "find (\<lambda>x. mcq_key x = (uid, dm_id mcq)) (mcqAttempts (snd (submitMCQ now uid body d)))
        = Some (fst (upsert (\<lambda>x. mcq_key x = (uid, dm_id mcq)) c u (mcqAttempts d) (nextId d)))"
    unfolding rows by (rule upsert_find_self) (simp_all add: c u)
  moreover have "at_completedAt (fst (upsert (\<lambda>x. mcq_key x = (uid, dm_id mcq)) c u (mcqAttempts d) (nextId d)))
        = Some now"
    by (simp add: upsert_def c u split: option.splits)
  ultimately have "has_completed uid (dm_id mcq) (snd (submitMCQ now uid body d))"
    by (simp add: has_completed_def)
  with mcq show ?thesis by blast
qed

lemma submitMCQ_keeps_completed:
  assumes "has_completed v m d"
  shows "has_completed v m (snd (submitMCQ now uid body d))"
proof (cases "todays_mcq now d = None \<or> (\<exists>mcq. todays_mcq now d = Some mcq \<and> has_completed uid (dm_id mcq) d)")
  case True
  then have "snd (submitMCQ now uid body d) = d" using submitMCQ_noop by blast
  with assms show ?thesis by simp
next
  case False
  then obtain mcq where mcq: "todays_mcq now d = Some mcq" and fresh_: "\<not> has_completed uid (dm_id mcq) d"
    by auto
  obtain c u where c: "\<And>n. mcq_key (c n) = (uid, dm_id mcq) \<and> at_completedAt (c n) = Some now"
    and u: "\<And>x. mcq_key (u x) = mcq_key x \<and> at_completedAt (u x) = Some now"
    and rows: "mcqAttempts (snd (submitMCQ now uid body d)) =
                fst (snd (upsert (\<lambda>x. mcq_key x = (uid, dm_id mcq)) c u (mcqAttempts d) (nextId d)))"
    using submitMCQ_shape [OF mcq fresh_] by blast
  have other: "(v, m) \<noteq> (uid, dm_id mcq)" using assms fresh_ by auto
  have found: "find (\<lambda>x. mcq_key x = (v, m)) (mcqAttempts d) \<noteq> None"
    using assms by (auto simp: has_completed_def split: option.splits)
  have "find (\<lambda>x. mcq_key x = (v, m)) (mcqAttempts (snd (submitMCQ now uid body d)))
        = find (\<lambda>x. mcq_key x = (v, m)) (mcqAttempts d)"
    unfolding rows using other found by (intro upsert_find_other) (auto simp: c u)
  with assms show ?thesis by (simp add: has_completed_def)
qed

lemma step_keeps_completed: "has_completed v m d \<Longrightarrow> has_completed v m (step e d)"
  by (cases e) (simp_all add: submitMCQ_keeps_completed, simp_all add: has_completed_def)

lemma run_keeps_completed: "has_completed v m d \<Longrightarrow> has_completed v m (run es d)"
  by (induction es arbitrary: d) (simp_all add: step_keeps_completed)

lemma step_dailyMCQs [simp]: "dailyMCQs (step e d) = dailyMCQs d"
  by (cases e) simp_all

lemma run_dailyMCQs [simp]: "dailyMCQs (run es d) = dailyMCQs d"
  by (induction es arbitrary: d) simp_all


subsection \<open>Daily mains answer\<close>





lemma startEvaluation_status:
  "status_of aid (startEvaluation aid ans q d) = ''evaluating''"
proof -
  let ?wh = "\<lambda>e. ev_attemptId e = aid"
  let ?c = "\<lambda>eid. \<lparr>ev_id = eid, ev_attemptId = aid, ev_score = 0, ev_maxScore = mn_marks q,
                    ev_status = ''evaluating'', ev_evaluatedAt = None\<rparr>"
  let ?u = "\<lambda>old. old\<lparr>ev_status := ''evaluating''\<rparr>"
  let ?r = "upsert ?wh ?c ?u (mainsEvaluations d) (nextId d)"
  have rows: "mainsEvaluations (startEvaluation aid ans q d) = fst (snd ?r)"
    by (simp add: startEvaluation_def case_prod_beta Let_def)
  have "find ?wh (fst (snd ?r)) = Some (fst ?r)"
    by (rule upsert_find_self) simp_all
  moreover have "ev_status (fst ?r) = ''evaluating''"
    by (simp add: upsert_def split: option.splits)
  ultimately show ?thesis
    by (simp add: status_of_def evaluation_of_def rows str_or_def)
qed

lemma startEvaluation_timers:
  "length (timers (startEvaluation aid ans q d)) = Suc (length (timers d))"
  by (simp add: startEvaluation_def case_prod_beta Let_def)

lemma mains_attempt_found:
  "find (\<lambda>x. mx_userId x = uid \<and> mx_questionId x = qid)
     (fst (snd (upsert (\<lambda>x. mx_userId x = uid \<and> mx_questionId x = qid)
        (\<lambda>aid. \<lparr>mx_id = aid, mx_userId = uid, mx_questionId = qid, mx_answerText = t,
                 mx_fileUrl = f, mx_wordCount = w, mx_submittedAt = s\<rparr>) u rows n)))
   = Some (fst (upsert (\<lambda>x. mx_userId x = uid \<and> mx_questionId x = qid)
        (\<lambda>aid. \<lparr>mx_id = aid, mx_userId = uid, mx_questionId = qid, mx_answerText = t,
                 mx_fileUrl = f, mx_wordCount = w, mx_submittedAt = s\<rparr>) u rows n))"
  if "\<And>x. mx_userId (u x) = mx_userId x \<and> mx_questionId (u x) = mx_questionId x"
  by (rule upsert_find_self) (simp_all add: that)

lemma submitTextAnswer_success:
  assumes "res_code (fst (submitTextAnswer now uid ans d)) = 200"
  shows "\<exists>q a. todays_mains now d = Some q
           \<and> find (\<lambda>x. mx_userId x = uid \<and> mx_questionId x = mn_id q)
                (mainsAttempts (snd (submitTextAnswer now uid ans d))) = Some a
           \<and> status_of (mx_id a) (snd (submitTextAnswer now uid ans d)) = ''evaluating''
           \<and> length (timers (snd (submitTextAnswer now uid ans d))) = Suc (length (timers d))"
proof -
  from assms have valid: "\<not> (case ans of None \<Rightarrow> True | Some s \<Rightarrow> s = [] \<or> length (trim s) = 0)"
    by (auto simp: submitTextAnswer_def error_reply_def json_reply_def split: if_splits)
  with assms obtain q where q: "todays_mains now d = Some q"
    by (cases "todays_mains now d") (auto simp: submitTextAnswer_def error_reply_def json_reply_def)
  show ?thesis
    using q valid
    by (simp add: submitTextAnswer_def Let_def case_prod_beta startEvaluation_status
        startEvaluation_timers mains_attempt_found del: length_0_conv)
qed

lemma uploadAnswer_success:
  assumes "res_code (fst (uploadAnswer now uid url d)) = 200"
  shows "\<exists>q a. todays_mains now d = Some q
           \<and> find (\<lambda>x. mx_userId x = uid \<and> mx_questionId x = mn_id q)
                (mainsAttempts (snd (uploadAnswer now uid url d))) = Some a
           \<and> status_of (mx_id a) (snd (uploadAnswer now uid url d)) = ''evaluating''
           \<and> length (timers (snd (uploadAnswer now uid url d))) = Suc (length (timers d))"
proof -
  from assms obtain q where q: "todays_mains now d = Some q"
    by (cases "todays_mains now d") (auto simp: uploadAnswer_def error_reply_def json_reply_def)
  show ?thesis
    using q
    by (simp add: uploadAnswer_def Let_def case_prod_beta startEvaluation_status
        startEvaluation_timers mains_attempt_found)
qed

lemma callback_moves_forward:
  "status_rank (status_of aid d) \<le> status_rank (status_of aid (evaluation_callback r now t d))"
proof (cases "find (\<lambda>e. ev_id e = tm_evaluationId t) (mainsEvaluations d)")
  case None
  then show ?thesis by (simp add: evaluation_callback_def Let_def)
next
  case (Some e0)
  let ?u = "\<lambda>e. e\<lparr>ev_score := (if tm_hasText t
                   then min (of_int (tm_marks t))
                          (max 3 (of_int (js_round (r * of_int (tm_marks t) * (6 / 10) + of_int (tm_marks t) * (3 / 10)))))
                   else of_int (tm_marks t) * (5 / 10)),
                 ev_status := ''completed'', ev_evaluatedAt := Some now\<rparr>"
  have rows: "mainsEvaluations (evaluation_callback r now t d) =
              update_first (\<lambda>e. ev_id e = tm_evaluationId t) ?u (mainsEvaluations d)"
    using Some by (simp add: evaluation_callback_def Let_def)
  have "find (\<lambda>e. ev_attemptId e = aid) (update_first (\<lambda>e. ev_id e = tm_evaluationId t) ?u (mainsEvaluations d))
          = find (\<lambda>e. ev_attemptId e = aid) (mainsEvaluations d)
        \<or> (\<exists>e. find (\<lambda>e. ev_attemptId e = aid) (mainsEvaluations d) = Some e
              \<and> ev_id e = tm_evaluationId t
              \<and> find (\<lambda>e. ev_attemptId e = aid)
                    (update_first (\<lambda>e. ev_id e = tm_evaluationId t) ?u (mainsEvaluations d)) = Some (?u e))"
    by (rule find_update_first_kept) simp
  then show ?thesis
  proof (elim disjE exE conjE)
    assume "find (\<lambda>e. ev_attemptId e = aid) (update_first (\<lambda>e. ev_id e = tm_evaluationId t) ?u (mainsEvaluations d))
            = find (\<lambda>e. ev_attemptId e = aid) (mainsEvaluations d)"
    then show ?thesis by (simp add: status_of_def evaluation_of_def rows)
  next
    fix e
    assume "find (\<lambda>e. ev_attemptId e = aid) (update_first (\<lambda>e. ev_id e = tm_evaluationId t) ?u (mainsEvaluations d))
            = Some (?u e)"
    then have "status_of aid (evaluation_callback r now t d) = ''completed''"
      by (simp add: status_of_def evaluation_of_def rows str_or_def)
    then show ?thesis by (simp add: status_rank_def)
  qed
qed

lemma timer_moves_forward:
  "status_rank (status_of aid d) \<le> status_rank (status_of aid (timer_fires k r now d))"
  using callback_moves_forward [of aid "d\<lparr>timers := take k (timers d) @ drop (Suc k) (timers d)\<rparr>" r now "timers d ! k"]
  by (simp add: timer_fires_def)

lemma timer_completes:
  assumes "k < length (timers d)"
    and "find (\<lambda>e. ev_id e = tm_evaluationId (timers d ! k)) (mainsEvaluations d) = Some e"
  shows "map_option ev_status
           (find (\<lambda>e. ev_id e = tm_evaluationId (timers d ! k)) (mainsEvaluations (timer_fires k r now d)))
         = Some ''completed''"
proof -
  have "ev_id e = tm_evaluationId (timers d ! k)"
    using assms(2) by (auto simp: find_Some_iff)
  then show ?thesis
    using assms
    by (simp add: timer_fires_def evaluation_callback_def Let_def find_update_first_self [OF assms(2)]
          del: map_option_eq_Some)
qed

lemma timer_leaves:
  "k < length (timers d) \<Longrightarrow>
   timers (timer_fires k r now d) = take k (timers d) @ drop (Suc k) (timers d)"
  by (simp add: timer_fires_def evaluation_callback_def Let_def split: option.splits)

lemma getEvaluationStatus_reports:
  assumes "todays_mains now d = Some q"
    and "find (\<lambda>x. mx_userId x = uid \<and> mx_questionId x = mn_id q) (mainsAttempts d) = Some a"
  shows "getEvaluationStatus now uid d =
           success_reply (JObj [(''attemptId'', JNum (of_nat (mx_id a))),
                                (''evaluationStatus'', JStr (status_of (mx_id a) d)),
                                (''isComplete'', JBool (status_of (mx_id a) d = ''completed''))])"
proof -
  have "(map_option ev_status (evaluation_of (mx_id a) d) = Some ''completed'')
        = (status_of (mx_id a) d = ''completed'')"
    by (cases "evaluation_of (mx_id a) d") (auto simp: status_of_def str_or_def)
  with assms show ?thesis
    by (simp add: getEvaluationStatus_def Let_def status_of_def)
qed

lemma status_pending_without_evaluation:
  "evaluation_of aid d = None \<Longrightarrow> status_of aid d = ''pending''"
  by (simp add: status_of_def str_or_def)

subsection \<open>What a submission writes to the attempt tables\<close>









subsection \<open>Unfolding the model on sample states\<close>

lemmas eval_defs = daily_db_def empty_db_def two_answers_def submitMCQ_def submitTextAnswer_def
  uploadAnswer_def startEvaluation_def upsert_def timer_fires_def evaluation_callback_def
  logActivity_def todays_mcq_def todays_mains_def questions_of_def getToday_def setHours0_def
  msPerDay_def answer_for_def selected_option_def mcq_score_def accuracy_of_def round1_def
  js_round_def num_or_def str_or_def success_reply_def error_reply_def json_reply_def
  status_of_def evaluation_of_def trim_def is_ws_def split_ws_length_def Let_def
  mcq_key_def mains_key_def one_attempt_per_item_def

section \<open>The claims\<close>

text \<open>
  C1. The claim reads: the score stored by \<open>submitTest\<close> equals the number of correct
  answers times 2 minus the number of wrong answers times 0.66. On the sample test, with
  one wrong answer and one question skipped, the formula gives -0.66 and the handler
  stores 0: the claim fails as stated.
\<close>

theorem submitTest_negative_total_is_clamped:
  "map ma_score (mockTestAttempts (snd (submitTest 0 7 1
       \<lparr>sb_answers = Some [(2, ''B'')], sb_timeTaken = None\<rparr> mock_db))) = [0]
   \<and> of_nat (correct_answers (Some [(2, ''B'')])
              (test_questions 1 mock_db)) * 2
     - of_nat (wrong_answers (Some [(2, ''B'')])
              (test_questions 1 mock_db)) * (66 / 100)
     = (- 66 / 100 :: rat)"
  by (simp add: submitTest_def test_questions_def mock_db_def empty_db_def fresh_def logActivity_def
      Let_def selected_of_def raw_score_def round1_def js_round_def correct_answers_def
      wrong_answers_def)

text \<open>
  C1, as amended. When the test exists, \<open>submitTest\<close> appends one attempt, whose score is
  the correct-minus-penalty total (correct answers times 2 minus wrong answers times 0.66,
  a question without a selected answer counting as skipped and adding nothing) rounded to
  one decimal and never below 0; the scores of the earlier attempts are unchanged.
\<close>

theorem submitTest_stored_score:
  assumes "find (\<lambda>t. mt_id t = testId) (mockTests d) = Some test"
  shows "map ma_score (mockTestAttempts (snd (submitTest now userId testId body d))) =
         map ma_score (mockTestAttempts d) @
           [max 0 (round1 (of_nat (correct_answers (sb_answers body)
                                     (test_questions testId d)) * 2
                           - of_nat (wrong_answers (sb_answers body)
                                     (test_questions testId d)) * (66 / 100)))]"
  by (simp add: submitTest_attempts [OF assms] raw_score_def)

theorem submitTest_stored_score_witness:
  "find (\<lambda>t. mt_id t = 1) (mockTests mock_db) =
     Some \<lparr>mt_id = 1, mt_title = ''Mixed - Prelims Practice'', mt_questionCount = 2,
           mt_duration = 3, mt_totalMarks = 4\<rparr>
   \<and> map ma_score (mockTestAttempts (snd (submitTest 0 7 1
       \<lparr>sb_answers = Some [(2, ''A''), (3, ''B'')], sb_timeTaken = None\<rparr> mock_db))) = [13 / 10]"
  using submitTest_stored_score [of 1 mock_db
     "\<lparr>mt_id = 1, mt_title = ''Mixed - Prelims Practice'', mt_questionCount = 2,
           mt_duration = 3, mt_totalMarks = 4\<rparr>" 0 7
     "\<lparr>sb_answers = Some [(2, ''A''), (3, ''B'')], sb_timeTaken = None\<rparr>"]
  by (simp add: test_questions_def mock_db_def empty_db_def selected_of_def round1_def js_round_def
        correct_answers_def wrong_answers_def floor_numeral_div)

text \<open>
  C2. For a user who has a streak row, \<open>updateStreak\<close> and \<open>updateStudyStreak\<close> leave
  the table unchanged when the last active day is today, set the current streak to the old
  one plus 1 when the last active day is yesterday, and set it to 1 in every other case
  (an older day, a later day, or no recorded day).
\<close>

theorem streak_step:
  assumes "tbl uid = Some s" and "stbl uid = Some t"
  shows "(map_option day_of (us_lastActiveDate s) = Some (day_of now) \<longrightarrow> updateStreak now uid tbl = tbl)
       \<and> (map_option day_of (us_lastActiveDate s) = Some (day_of now - 1) \<longrightarrow>
            map_option us_currentStreak (updateStreak now uid tbl uid) = Some (us_currentStreak s + 1))
       \<and> (map_option day_of (us_lastActiveDate s) \<noteq> Some (day_of now) \<and>
          map_option day_of (us_lastActiveDate s) \<noteq> Some (day_of now - 1) \<longrightarrow>
            map_option us_currentStreak (updateStreak now uid tbl uid) = Some 1)
       \<and> (map_option day_of (ss_lastStudyDate t) = Some (day_of now) \<longrightarrow> updateStudyStreak now uid stbl = stbl)
       \<and> (map_option day_of (ss_lastStudyDate t) = Some (day_of now - 1) \<longrightarrow>
            map_option ss_currentStreak (updateStudyStreak now uid stbl uid) = Some (ss_currentStreak t + 1))
       \<and> (map_option day_of (ss_lastStudyDate t) \<noteq> Some (day_of now) \<and>
          map_option day_of (ss_lastStudyDate t) \<noteq> Some (day_of now - 1) \<longrightarrow>
            map_option ss_currentStreak (updateStudyStreak now uid stbl uid) = Some 1)"
proof (intro conjI impI)
  note u = updateStreak_row [of tbl uid s now] updateStudyStreak_row [of stbl uid t now]
  show "updateStreak now uid tbl = tbl"
    if "map_option day_of (us_lastActiveDate s) = Some (day_of now)"
    using assms that by (simp add: u del: map_option_eq_Some)
  show "updateStudyStreak now uid stbl = stbl"
    if "map_option day_of (ss_lastStudyDate t) = Some (day_of now)"
    using assms that by (simp add: u del: map_option_eq_Some)
  show "map_option us_currentStreak (updateStreak now uid tbl uid) = Some (us_currentStreak s + 1)"
    if h: "map_option day_of (us_lastActiveDate s) = Some (day_of now - 1)"
  proof -
    from h have "map_option day_of (us_lastActiveDate s) \<noteq> Some (day_of now)" by (simp del: map_option_eq_Some)
    with h assms show ?thesis by (simp add: u del: map_option_eq_Some)
  qed
  show "map_option ss_currentStreak (updateStudyStreak now uid stbl uid) = Some (ss_currentStreak t + 1)"
    if h: "map_option day_of (ss_lastStudyDate t) = Some (day_of now - 1)"
  proof -
    from h have "map_option day_of (ss_lastStudyDate t) \<noteq> Some (day_of now)" by (simp del: map_option_eq_Some)
    with h assms show ?thesis by (simp add: u del: map_option_eq_Some)
  qed
  show "map_option us_currentStreak (updateStreak now uid tbl uid) = Some 1"
    if "map_option day_of (us_lastActiveDate s) \<noteq> Some (day_of now) \<and>
        map_option day_of (us_lastActiveDate s) \<noteq> Some (day_of now - 1)"
    using assms that by (simp add: u del: map_option_eq_Some)
  show "map_option ss_currentStreak (updateStudyStreak now uid stbl uid) = Some 1"
    if "map_option day_of (ss_lastStudyDate t) \<noteq> Some (day_of now) \<and>
        map_option day_of (ss_lastStudyDate t) \<noteq> Some (day_of now - 1)"
    using assms that by (simp add: u del: map_option_eq_Some)
qed

theorem streak_step_witness:
  "streak_tbl (Some 864000005) 7 =
     Some \<lparr>us_userId = 7, us_currentStreak = 3, us_longestStreak = 5,
           us_lastActiveDate = Some 864000005, us_weekActivity = []\<rparr>
   \<and> map_option us_currentStreak (updateStreak 950400100 7 (streak_tbl (Some 864000005)) 7) = Some 4
   \<and> map_option ss_currentStreak (updateStudyStreak 950400100 7 (study_tbl (Some 864000005)) 7) = Some 4
   \<and> updateStreak 864000999 7 (streak_tbl (Some 864000005)) = streak_tbl (Some 864000005)
   \<and> updateStudyStreak 864000999 7 (study_tbl (Some 864000005)) = study_tbl (Some 864000005)
   \<and> map_option us_currentStreak (updateStreak 1728000000 7 (streak_tbl None) 7) = Some 1
   \<and> map_option ss_currentStreak (updateStudyStreak 1728000000 7 (study_tbl (Some 864000005)) 7) = Some 1"
proof -
  have a: "streak_tbl l 7 = Some \<lparr>us_userId = 7, us_currentStreak = 3, us_longestStreak = 5,
              us_lastActiveDate = l, us_weekActivity = []\<rparr>" for l
    by (simp add: streak_tbl_def)
  have b: "study_tbl l 7 = Some \<lparr>ss_userId = 7, ss_currentStreak = 3, ss_longestStreak = 5,
              ss_totalStudyDays = 9, ss_lastStudyDate = l\<rparr>" for l
    by (simp add: study_tbl_def)
  show ?thesis
    using
      streak_step [of "streak_tbl (Some 864000005)" 7
          "\<lparr>us_userId = 7, us_currentStreak = 3, us_longestStreak = 5,
            us_lastActiveDate = Some 864000005, us_weekActivity = []\<rparr>"
          "study_tbl (Some 864000005)"
          "\<lparr>ss_userId = 7, ss_currentStreak = 3, ss_longestStreak = 5,
            ss_totalStudyDays = 9, ss_lastStudyDate = Some 864000005\<rparr>" 950400100]
      streak_step [of "streak_tbl (Some 864000005)" 7
          "\<lparr>us_userId = 7, us_currentStreak = 3, us_longestStreak = 5,
            us_lastActiveDate = Some 864000005, us_weekActivity = []\<rparr>"
          "study_tbl (Some 864000005)"
          "\<lparr>ss_userId = 7, ss_currentStreak = 3, ss_longestStreak = 5,
            ss_totalStudyDays = 9, ss_lastStudyDate = Some 864000005\<rparr>" 864000999]
      streak_step [of "streak_tbl None" 7
          "\<lparr>us_userId = 7, us_currentStreak = 3, us_longestStreak = 5,
            us_lastActiveDate = None, us_weekActivity = []\<rparr>"
          "study_tbl (Some 864000005)"
          "\<lparr>ss_userId = 7, ss_currentStreak = 3, ss_longestStreak = 5,
            ss_totalStudyDays = 9, ss_lastStudyDate = Some 864000005\<rparr>" 1728000000]
    by (simp add: a b day_of_def msPerDay_def)
qed

text \<open>
  C3. Once a user's submission to today's daily MCQ has completed (it was answered 200),
  a later submission by the same user on the same day, whatever else was submitted or
  fired in between, is answered 400 with the \<open>status\<close>/\<open>message\<close> envelope, and the
  state, with the stored attempt of the first submission, is returned unchanged.
\<close>

theorem second_submitMCQ_rejected:
  assumes first: "res_code (fst (submitMCQ now uid body d)) = 200"
    and same_day: "getToday now' = getToday now"
  shows "snd (submitMCQ now' uid body' (run es (snd (submitMCQ now uid body d))))
           = run es (snd (submitMCQ now uid body d))
       \<and> res_code (fst (submitMCQ now' uid body' (run es (snd (submitMCQ now uid body d))))) = 400
       \<and> member (res_body (fst (submitMCQ now' uid body' (run es (snd (submitMCQ now uid body d))))))
            ''status'' = Some (JStr ''error'')
       \<and> member (res_body (fst (submitMCQ now' uid body' (run es (snd (submitMCQ now uid body d))))))
            ''message'' = Some (JStr ''You have already submitted today's MCQ'')"
proof -
  let ?d = "run es (snd (submitMCQ now uid body d))"
  obtain mcq where mcq: "todays_mcq now d = Some mcq"
    and fin: "has_completed uid (dm_id mcq) (snd (submitMCQ now uid body d))"
    using submitMCQ_completes [OF first] by blast
  have "todays_mcq now' ?d = Some mcq"
    using mcq same_day by (simp add: todays_mcq_def)
  moreover have "has_completed uid (dm_id mcq) ?d"
    using fin by (rule run_keeps_completed)
  ultimately have "submitMCQ now' uid body' ?d =
      (error_reply 400 ''You have already submitted today's MCQ'', ?d)"
    by (rule submitMCQ_rejects_completed)
  then show ?thesis by (simp add: error_reply_def json_reply_def)
qed

theorem second_submitMCQ_rejected_witness:
  "res_code (fst (submitMCQ 864000500 7 two_answers daily_db)) = 200
   \<and> getToday 864030000 = getToday 864000500
   \<and> res_code (fst (submitMCQ 864030000 7 two_answers
        (run [SubmitMCQ 864000600 8 two_answers] (snd (submitMCQ 864000500 7 two_answers daily_db))))) = 400
   \<and> snd (submitMCQ 864030000 7 two_answers
        (run [SubmitMCQ 864000600 8 two_answers] (snd (submitMCQ 864000500 7 two_answers daily_db))))
      = run [SubmitMCQ 864000600 8 two_answers] (snd (submitMCQ 864000500 7 two_answers daily_db))"
proof -
  have a: "res_code (fst (submitMCQ 864000500 7 two_answers daily_db)) = 200"
    by (simp add: eval_defs case_prod_beta)
  have b: "getToday 864030000 = getToday 864000500"
    by (simp add: getToday_def setHours0_def msPerDay_def)
  show ?thesis
    using a b second_submitMCQ_rejected [OF a b, of two_answers "[SubmitMCQ 864000600 8 two_answers]"]
    by simp
qed




text \<open>
  C5. The claim reads: no step moves the evaluation status backwards along pending,
  evaluating, completed. A first submission and its callback bring the status of the
  attempt to completed; the same user's resubmission then sets it back to evaluating:
  the claim fails as stated.
\<close>

theorem resubmission_resets_completed:
  "status_of 10 (run [SubmitText 864000500 7 (Some [104, 105]), TimerFires 0 (1 / 2) 864005500] daily_db)
     = ''completed''
   \<and> status_of 10 (step (SubmitText 864009000 7 (Some [104, 105]))
        (run [SubmitText 864000500 7 (Some [104, 105]), TimerFires 0 (1 / 2) 864005500] daily_db))
     = ''evaluating''
   \<and> status_rank ''evaluating'' < status_rank ''completed''"
  by (simp add: eval_defs status_rank_def floor_numeral_div)

text \<open>
  C5, as amended. A successful submission (text or upload) leaves the attempt's evaluation
  with status evaluating, created or reset, whatever the status was before, and sets
  exactly one timer; a timer that fires leaves the pending timers without setting another,
  sets the status of its evaluation to completed, and moves no attempt's status backwards;
  \<open>getEvaluationStatus\<close> reports the attempt's status, pending when it has no evaluation,
  and \<open>isComplete\<close> exactly when that status is completed.
\<close>

theorem evaluation_status_steps:
  "(res_code (fst (submitTextAnswer now uid ans d)) = 200 \<longrightarrow>
      (\<exists>q a. todays_mains now d = Some q
         \<and> find (\<lambda>x. mx_userId x = uid \<and> mx_questionId x = mn_id q)
              (mainsAttempts (snd (submitTextAnswer now uid ans d))) = Some a
         \<and> status_of (mx_id a) (snd (submitTextAnswer now uid ans d)) = ''evaluating''
         \<and> length (timers (snd (submitTextAnswer now uid ans d))) = Suc (length (timers d))))
   \<and> (res_code (fst (uploadAnswer now uid url d)) = 200 \<longrightarrow>
      (\<exists>q a. todays_mains now d = Some q
         \<and> find (\<lambda>x. mx_userId x = uid \<and> mx_questionId x = mn_id q)
              (mainsAttempts (snd (uploadAnswer now uid url d))) = Some a
         \<and> status_of (mx_id a) (snd (uploadAnswer now uid url d)) = ''evaluating''
         \<and> length (timers (snd (uploadAnswer now uid url d))) = Suc (length (timers d))))
   \<and> (k < length (timers d) \<longrightarrow>
        timers (timer_fires k r now d) = take k (timers d) @ drop (Suc k) (timers d))
   \<and> (k < length (timers d)
        \<and> find (\<lambda>e. ev_id e = tm_evaluationId (timers d ! k)) (mainsEvaluations d) \<noteq> None \<longrightarrow>
        map_option ev_status
          (find (\<lambda>e. ev_id e = tm_evaluationId (timers d ! k)) (mainsEvaluations (timer_fires k r now d)))
        = Some ''completed'')
   \<and> status_rank (status_of aid d) \<le> status_rank (status_of aid (timer_fires k r now d))
   \<and> (todays_mains now d = Some q
        \<and> find (\<lambda>x. mx_userId x = uid \<and> mx_questionId x = mn_id q) (mainsAttempts d) = Some a \<longrightarrow>
        getEvaluationStatus now uid d =
          success_reply (JObj [(''attemptId'', JNum (of_nat (mx_id a))),
                               (''evaluationStatus'', JStr (status_of (mx_id a) d)),
                               (''isComplete'', JBool (status_of (mx_id a) d = ''completed''))]))
   \<and> (evaluation_of aid d = None \<longrightarrow> status_of aid d = ''pending'')"
proof (intro conjI impI)
  show "\<exists>q a. todays_mains now d = Some q
         \<and> find (\<lambda>x. mx_userId x = uid \<and> mx_questionId x = mn_id q)
              (mainsAttempts (snd (submitTextAnswer now uid ans d))) = Some a
         \<and> status_of (mx_id a) (snd (submitTextAnswer now uid ans d)) = ''evaluating''
         \<and> length (timers (snd (submitTextAnswer now uid ans d))) = Suc (length (timers d))"
    if "res_code (fst (submitTextAnswer now uid ans d)) = 200"
    using that by (rule submitTextAnswer_success)
  show "\<exists>q a. todays_mains now d = Some q
         \<and> find (\<lambda>x. mx_userId x = uid \<and> mx_questionId x = mn_id q)
              (mainsAttempts (snd (uploadAnswer now uid url d))) = Some a
         \<and> status_of (mx_id a) (snd (uploadAnswer now uid url d)) = ''evaluating''
         \<and> length (timers (snd (uploadAnswer now uid url d))) = Suc (length (timers d))"
    if "res_code (fst (uploadAnswer now uid url d)) = 200"
    using that by (rule uploadAnswer_success)
  show "timers (timer_fires k r now d) = take k (timers d) @ drop (Suc k) (timers d)"
    if "k < length (timers d)"
    using that by (rule timer_leaves)
  show "map_option ev_status
          (find (\<lambda>e. ev_id e = tm_evaluationId (timers d ! k)) (mainsEvaluations (timer_fires k r now d)))
        = Some ''completed''"
    if "k < length (timers d)
        \<and> find (\<lambda>e. ev_id e = tm_evaluationId (timers d ! k)) (mainsEvaluations d) \<noteq> None"
    using that timer_completes [of k d _ r now] by (auto simp del: map_option_eq_Some)
  show "status_rank (status_of aid d) \<le> status_rank (status_of aid (timer_fires k r now d))"
    by (rule timer_moves_forward)
  show "getEvaluationStatus now uid d =
          success_reply (JObj [(''attemptId'', JNum (of_nat (mx_id a))),
                               (''evaluationStatus'', JStr (status_of (mx_id a) d)),
                               (''isComplete'', JBool (status_of (mx_id a) d = ''completed''))])"
    if "todays_mains now d = Some q
        \<and> find (\<lambda>x. mx_userId x = uid \<and> mx_questionId x = mn_id q) (mainsAttempts d) = Some a"
    using that getEvaluationStatus_reports [of now d q uid a] by simp
  show "status_of aid d = ''pending''" if "evaluation_of aid d = None"
    using that by (rule status_pending_without_evaluation)
qed

theorem evaluation_status_steps_witness:
  "res_code (fst (submitTextAnswer 864000500 7 (Some [104, 105]) daily_db)) = 200
   \<and> status_of 10 (snd (submitTextAnswer 864000500 7 (Some [104, 105]) daily_db)) = ''evaluating''
   \<and> length (timers (snd (submitTextAnswer 864000500 7 (Some [104, 105]) daily_db))) = 1
   \<and> timers (timer_fires 0 (1 / 2) 864005500
        (snd (submitTextAnswer 864000500 7 (Some [104, 105]) daily_db))) = []
   \<and> status_of 10 (timer_fires 0 (1 / 2) 864005500
        (snd (submitTextAnswer 864000500 7 (Some [104, 105]) daily_db))) = ''completed''
   \<and> member (res_body (getEvaluationStatus 864006000 7 (timer_fires 0 (1 / 2) 864005500
        (snd (submitTextAnswer 864000500 7 (Some [104, 105]) daily_db))))) ''data''
      = Some (JObj [(''attemptId'', JNum 10), (''evaluationStatus'', JStr ''completed''),
                    (''isComplete'', JBool True)])
   \<and> status_of 10 daily_db = ''pending''"
proof -
  let ?d1 = "snd (submitTextAnswer 864000500 7 (Some [104, 105]) daily_db)"
  let ?d2 = "timer_fires 0 (1 / 2) 864005500 ?d1"
  let ?a = "\<lparr>mx_id = 10, mx_userId = 7, mx_questionId = 5, mx_answerText = Some [104, 105],
             mx_fileUrl = None, mx_wordCount = Some 1, mx_submittedAt = Some 864000500\<rparr>"
  let ?q = "\<lparr>mn_id = 5, mn_date = 864000000, mn_subject = ''Polity'', mn_marks = 10\<rparr>"
  have ok: "res_code (fst (submitTextAnswer 864000500 7 (Some [104, 105]) daily_db)) = 200"
    by (simp add: eval_defs case_prod_beta)
  have d1: "find (\<lambda>x. mx_userId x = 7 \<and> mx_questionId x = 5) (mainsAttempts ?d1) = Some ?a"
      "length (timers ?d1) = 1" "todays_mains 864000500 daily_db = Some ?q"
    by (simp_all add: eval_defs case_prod_beta)
  have d2: "todays_mains 864006000 ?d2 = Some ?q"
      "find (\<lambda>x. mx_userId x = 7 \<and> mx_questionId x = mn_id ?q) (mainsAttempts ?d2) = Some ?a"
      "status_of 10 ?d2 = ''completed''"
    by (simp_all add: eval_defs case_prod_beta floor_numeral_div)
  have none: "evaluation_of 10 daily_db = None"
    by (simp add: eval_defs)
  note s1 = evaluation_status_steps [where now = 864000500 and uid = 7 and ans = "Some [104, 105]"
      and d = daily_db and aid = 10]
  note s2 = evaluation_status_steps [where now = 864005500 and k = 0 and r = "1 / 2" and d = ?d1]
  note s3 = evaluation_status_steps [where now = 864006000 and uid = 7 and d = ?d2 and q = ?q and a = ?a]
  have "status_of 10 ?d1 = ''evaluating''"
    using s1 ok d1 by auto
  moreover have "timers ?d2 = []"
    using s2 d1(2) by (simp add: Suc_length_conv)
  moreover have "getEvaluationStatus 864006000 7 ?d2 =
      success_reply (JObj [(''attemptId'', JNum 10), (''evaluationStatus'', JStr ''completed''),
                           (''isComplete'', JBool True)])"
    using s3 d2 by simp
  moreover have "status_of 10 daily_db = ''pending''"
    using s1 none by blast
  ultimately show ?thesis
    using ok d1(2) d2(3) by (simp add: success_reply_def json_reply_def)
qed




text \<open>
  C7. When \<open>answerText\<close> is missing, empty or only white space, \<open>submitTextAnswer\<close>
  answers 400 with the \<open>status: "error"\<close> envelope and returns the database as it was:
  no row of any table is created or modified, and no timer is set.
\<close>

theorem submitTextAnswer_blank_rejected:
  assumes "answerText = None \<or> (\<exists>s. answerText = Some s \<and> (\<forall>c\<in>set s. is_ws c))"
  shows "snd (submitTextAnswer now userId answerText d) = d
       \<and> res_code (fst (submitTextAnswer now userId answerText d)) = 400
       \<and> member (res_body (fst (submitTextAnswer now userId answerText d))) ''status'' = Some (JStr ''error'')
       \<and> member (res_body (fst (submitTextAnswer now userId answerText d))) ''message''
           = Some (JStr ''Answer text is required'')"
  using assms by (auto simp: submitTextAnswer_def trim_blank error_reply_def json_reply_def)

theorem submitTextAnswer_blank_rejected_witness:
  "snd (submitTextAnswer 5 1 (Some [32, 9, 160, 10]) mock_db) = mock_db
   \<and> res_code (fst (submitTextAnswer 5 1 (Some [32, 9, 160, 10]) mock_db)) = 400
   \<and> snd (submitTextAnswer 5 1 (Some []) mock_db) = mock_db
   \<and> snd (submitTextAnswer 5 1 None mock_db) = mock_db
   \<and> res_code (fst (submitTextAnswer 5 1 None mock_db)) = 400"
  using submitTextAnswer_blank_rejected [of "Some [32, 9, 160, 10]" 5 1 mock_db]
        submitTextAnswer_blank_rejected [of "Some []" 5 1 mock_db]
        submitTextAnswer_blank_rejected [of None 5 1 mock_db]
  by (simp add: is_ws_def)

text \<open>
  C8. Every question object in the response of \<open>getTodayQuestions\<close> has exactly the
  members id, questionNum, questionText, category, difficulty and options, and so neither
  correctOption nor explanation; and two databases that differ only in the correctOption
  and explanation columns of the questions get identical responses.
\<close>

theorem getTodayQuestions_hides_answers:
  "(\<forall>obj \<in> set (response_questions (getTodayQuestions now d)).
       keys_of obj = [''id'', ''questionNum'', ''questionText'', ''category'', ''difficulty'', ''options''])
   \<and> (map redact qs' = map redact (mcqQuestions d) \<longrightarrow>
        getTodayQuestions now (d\<lparr>mcqQuestions := qs'\<rparr>) = getTodayQuestions now d)"
proof
  show "\<forall>obj \<in> set (response_questions (getTodayQuestions now d)).
       keys_of obj = [''id'', ''questionNum'', ''questionText'', ''category'', ''difficulty'', ''options'']"
    by (auto simp: getTodayQuestions_views response_questions_def success_reply_def error_reply_def
          json_reply_def keys_of_question_view split: option.splits)
  show "map redact qs' = map redact (mcqQuestions d) \<longrightarrow>
        getTodayQuestions now (d\<lparr>mcqQuestions := qs'\<rparr>) = getTodayQuestions now d"
  proof
    assume eq: "map redact qs' = map redact (mcqQuestions d)"
    have same: "todays_mcq now (d\<lparr>mcqQuestions := qs'\<rparr>) = todays_mcq now d"
      by (simp add: todays_mcq_def)
    show "getTodayQuestions now (d\<lparr>mcqQuestions := qs'\<rparr>) = getTodayQuestions now d"
      unfolding getTodayQuestions_views same
      by (simp add: views_depend_on_redacted [of _ qs'] views_depend_on_redacted [of _ "mcqQuestions d"] eq
            split: option.splits)
  qed
qed

theorem getTodayQuestions_hides_answers_witness:
  "map redact other_answers = map redact (mcqQuestions daily_db)
   \<and> other_answers \<noteq> mcqQuestions daily_db
   \<and> getTodayQuestions 864000500 (daily_db\<lparr>mcqQuestions := other_answers\<rparr>) = getTodayQuestions 864000500 daily_db
   \<and> length (response_questions (getTodayQuestions 864000500 daily_db)) = 2
   \<and> map keys_of (response_questions (getTodayQuestions 864000500 daily_db)) =
       replicate 2 [''id'', ''questionNum'', ''questionText'', ''category'', ''difficulty'', ''options'']"
proof -
  have a: "map redact other_answers = map redact (mcqQuestions daily_db)"
    by (simp add: other_answers_def daily_db_def empty_db_def redact_def)
  have b: "other_answers \<noteq> mcqQuestions daily_db"
    by (simp add: other_answers_def daily_db_def empty_db_def)
  have c: "length (response_questions (getTodayQuestions 864000500 daily_db)) = 2"
    by (simp add: getTodayQuestions_views response_questions_def success_reply_def json_reply_def
        todays_mcq_def getToday_def setHours0_def msPerDay_def daily_db_def empty_db_def)
  have d: "map keys_of xs = replicate 2 k" if "length xs = 2" "\<forall>obj\<in>set xs. keys_of obj = k" for xs k
    using that by (cases xs; cases "tl xs") (auto simp: numeral_2_eq_2)
  show ?thesis
    using a b c getTodayQuestions_hides_answers [of 864000500 daily_db other_answers] d [OF c]
    by simp
qed

text \<open>
  C9. Every write to a streak row keeps the current streak at most the longest streak: if
  all rows of the table satisfy it, so do all rows after \<open>updateStreak\<close>, after
  \<open>updateStudyStreak\<close>, and after the zero-initialised creations of \<open>getStreak\<close> and
  \<open>getStudyStreak\<close>.
\<close>

theorem streak_writes_keep_order:
  "((\<forall>u s. tbl u = Some s \<longrightarrow> streak_inv s) \<longrightarrow>
      (\<forall>u s. updateStreak now uid tbl u = Some s \<longrightarrow> streak_inv s)
      \<and> (\<forall>u s. snd (getStreak uid tbl) u = Some s \<longrightarrow> streak_inv s))
   \<and> ((\<forall>u s. stbl u = Some s \<longrightarrow> study_inv s) \<longrightarrow>
      (\<forall>u s. updateStudyStreak now uid stbl u = Some s \<longrightarrow> study_inv s)
      \<and> (\<forall>u s. snd (getStudyStreak uid stbl) u = Some s \<longrightarrow> study_inv s))"
  by (auto simp: updateStreak_def updateStudyStreak_def getStreak_def getStudyStreak_def
        streak_inv_def study_inv_def Let_def split: option.splits if_splits)

theorem streak_writes_keep_order_witness:
  "streak_inv \<lparr>us_userId = 7, us_currentStreak = 3, us_longestStreak = 5,
               us_lastActiveDate = Some 864000005, us_weekActivity = []\<rparr>
   \<and> map_option streak_inv (updateStreak 950400100 7 (streak_tbl (Some 864000005)) 7) = Some True
   \<and> map_option us_currentStreak (updateStreak 950400100 7 (streak_tbl (Some 864000005)) 7) = Some 4
   \<and> map_option streak_inv (snd (getStreak 8 (streak_tbl (Some 864000005))) 8) = Some True
   \<and> map_option study_inv (updateStudyStreak 950400100 7 (study_tbl (Some 864000005)) 7) = Some True
   \<and> map_option ss_currentStreak (updateStudyStreak 950400100 7 (study_tbl (Some 864000005)) 7) = Some 4
   \<and> map_option study_inv (snd (getStudyStreak 8 (study_tbl (Some 864000005))) 8) = Some True"
proof -
  have a: "\<forall>u s. streak_tbl (Some 864000005) u = Some s \<longrightarrow> streak_inv s"
    by (simp add: streak_tbl_def streak_inv_def)
  have b: "\<forall>u s. study_tbl (Some 864000005) u = Some s \<longrightarrow> study_inv s"
    by (simp add: study_tbl_def study_inv_def)
  note t7 = streak_writes_keep_order
      [of "streak_tbl (Some 864000005)" 950400100 7 "study_tbl (Some 864000005)"]
  note t8 = streak_writes_keep_order
      [of "streak_tbl (Some 864000005)" 950400100 8 "study_tbl (Some 864000005)"]
  obtain r1 where r1: "updateStreak 950400100 7 (streak_tbl (Some 864000005)) 7 = Some r1"
    and c1: "us_currentStreak r1 = 4"
    by (simp add: updateStreak_def streak_tbl_def setHours0_def dayBefore_def msPerDay_def Let_def)
  obtain r2 where r2: "snd (getStreak 8 (streak_tbl (Some 864000005))) 8 = Some r2"
    by (simp add: getStreak_def streak_tbl_def Let_def)
  obtain r3 where r3: "updateStudyStreak 950400100 7 (study_tbl (Some 864000005)) 7 = Some r3"
    and c3: "ss_currentStreak r3 = 4"
    by (simp add: updateStudyStreak_def study_tbl_def getToday_def setHours0_def dayBefore_def
        msPerDay_def Let_def)
  obtain r4 where r4: "snd (getStudyStreak 8 (study_tbl (Some 864000005))) 8 = Some r4"
    by (simp add: getStudyStreak_def study_tbl_def Let_def)
  have "streak_inv r1" using t7 a r1 by blast
  moreover have "streak_inv r2" using t8 a r2 by blast
  moreover have "study_inv r3" using t7 b r3 by blast
  moreover have "study_inv r4" using t8 b r4 by blast
  moreover have "streak_inv \<lparr>us_userId = 7, us_currentStreak = 3, us_longestStreak = 5,
               us_lastActiveDate = Some 864000005, us_weekActivity = []\<rparr>"
    by (simp add: streak_inv_def)
  ultimately show ?thesis
    by (simp add: r1 r2 r3 r4 c1 c3)
qed

text \<open>
  C10. The claim reads: for every submission the stored score is at most the test's
  \<open>totalMarks\<close>. \<open>generateTest\<close> with \<open>questionCount = -5\<close> stores a test with
  \<open>totalMarks = -10\<close> and no question; a submission to it stores the score 0, which is
  above -10: the claim fails as stated.
\<close>

theorem negative_questionCount_breaks_upper_bound:
  "map ma_score (mockTestAttempts (mock_run
      [Generate no_draws 7
         \<lparr>gb_subject = None, gb_examMode = None, gb_difficulty = None, gb_questionCount = Some (- 5)\<rparr>,
       Submit 0 7 0 \<lparr>sb_answers = None, sb_timeTaken = None\<rparr>] empty_db)) = [0]
   \<and> map ma_totalMarks (mockTestAttempts (mock_run
      [Generate no_draws 7
         \<lparr>gb_subject = None, gb_examMode = None, gb_difficulty = None, gb_questionCount = Some (- 5)\<rparr>,
       Submit 0 7 0 \<lparr>sb_answers = None, sb_timeTaken = None\<rparr>] empty_db)) = [- 10]"
  by (simp add: submitTest_def test_questions_def generateTest_def empty_db_def fresh_def
      logActivity_def Let_def num_or_def raw_score_def round1_def js_round_def)

text \<open>
  C10, as amended. Starting from mock-test tables as \<open>generateTest\<close> leaves them (the
  empty database is one), after any sequence of \<open>generateTest\<close> calls whose requested
  question count is missing, zero or positive and of \<open>submitTest\<close> calls with any
  answers, every stored attempt has a score that is at least 0 and at most its
  \<open>totalMarks\<close>, and every test's \<open>totalMarks\<close> is twice its question count.
\<close>

theorem stored_scores_in_range:
  assumes "mock_inv d" and "\<forall>e\<in>set es. count_given e"
  shows "(\<forall>a\<in>set (mockTestAttempts (mock_run es d)).
            0 \<le> ma_score a \<and> ma_score a \<le> of_int (ma_totalMarks a))
       \<and> (\<forall>t\<in>set (mockTests (mock_run es d)). mt_totalMarks t = 2 * mt_questionCount t)"
  using mock_run_keeps_inv [OF assms] by (simp add: mock_inv_def score_in_range_def)

theorem stored_scores_in_range_witness:
  "mock_inv empty_db
   \<and> count_given (Generate no_draws 7
         \<lparr>gb_subject = None, gb_examMode = None, gb_difficulty = None, gb_questionCount = Some 2\<rparr>)
   \<and> count_given (Submit 0 7 0 \<lparr>sb_answers = Some [(1, ''A''), (2, ''B'')], sb_timeTaken = None\<rparr>)
   \<and> map ma_score (mockTestAttempts (mock_run
      [Generate no_draws 7
         \<lparr>gb_subject = None, gb_examMode = None, gb_difficulty = None, gb_questionCount = Some 2\<rparr>,
       Submit 0 7 0 \<lparr>sb_answers = Some [(1, ''A''), (2, ''B'')], sb_timeTaken = None\<rparr>] empty_db))
      = [13 / 10]
   \<and> map ma_totalMarks (mockTestAttempts (mock_run
      [Generate no_draws 7
         \<lparr>gb_subject = None, gb_examMode = None, gb_difficulty = None, gb_questionCount = Some 2\<rparr>,
       Submit 0 7 0 \<lparr>sb_answers = Some [(1, ''A''), (2, ''B'')], sb_timeTaken = None\<rparr>] empty_db))
      = [4]
   \<and> list_all (\<lambda>a. 0 \<le> ma_score a \<and> ma_score a \<le> of_int (ma_totalMarks a))
       (mockTestAttempts (mock_run
      [Generate no_draws 7
         \<lparr>gb_subject = None, gb_examMode = None, gb_difficulty = None, gb_questionCount = Some 2\<rparr>,
       Submit 0 7 0 \<lparr>sb_answers = Some [(1, ''A''), (2, ''B'')], sb_timeTaken = None\<rparr>] empty_db))"
proof -
  let ?es = "[Generate no_draws 7
         \<lparr>gb_subject = None, gb_examMode = None, gb_difficulty = None, gb_questionCount = Some 2\<rparr>,
       Submit 0 7 0 \<lparr>sb_answers = Some [(1, ''A''), (2, ''B'')], sb_timeTaken = None\<rparr>]"
  have a: "mock_inv empty_db"
    by (simp add: mock_inv_def empty_db_def)
  have b: "\<forall>e\<in>set ?es. count_given e"
    by (simp add: num_or_def)
  have u: "[1..2::int] = [1, 2]"
    by (simp add: upto_rec1)
  have c: "map ma_score (mockTestAttempts (mock_run ?es empty_db)) = [13 / 10]"
      "map ma_totalMarks (mockTestAttempts (mock_run ?es empty_db)) = [4]"
    by (simp_all add: submitTest_def test_questions_def generateTest_def empty_db_def fresh_def
        logActivity_def Let_def num_or_def str_or_def raw_score_def round1_def js_round_def
        selected_of_def generated_question_def pick_def no_draws_def floor_numeral_div u)
  show ?thesis
    using a b c stored_scores_in_range [OF a b] by (simp add: list_all_iff)
qed

end
